theory Spec2Isabelle
  imports Main "HOL-Library.AList"
begin

section \<open>Data model\<close>

text \<open>
  The translator of \<^verbatim>\<open>src/index.ts\<close> walks schema nodes of the validation library.
  Its parameter is typed \<^verbatim>\<open>any\<close>; the model keeps, for one node, exactly the
  properties the code reads. JavaScript functions are opaque: a function value is
  identified by a name.
\<close>

datatype func = Func string

text \<open>Plain values, as a Default wrapper stores them.\<close>

datatype jsval = JNull | JBool bool | JNum int | JStr string | JArr "jsval list"

text \<open>\<^verbatim>\<open>zm.EffectValidator\<close>: the record \<^verbatim>\<open>{validator, message}\<close>; the message may be
  \<^verbatim>\<open>undefined\<close>.\<close>

datatype EffectValidator = EffectValidator (validator: func) (message: "string option")

text \<open>
  One entry of \<^verbatim>\<open>_def.checks\<close>. \<^verbatim>\<open>check.def.error\<close>, when it is a function, is
  called with no argument inside \<^verbatim>\<open>try\<close>: the model records what that call does.
  \<open>cd_error = None\<close> stands for an \<^verbatim>\<open>error\<close> that is not a function; a \<open>cd_type\<close> other
  than \<^verbatim>\<open>custom\<close> stands for any other value of \<^verbatim>\<open>def.type\<close>. \<open>NoCheck\<close> is a falsy entry.
\<close>

datatype errorfn = Throws | ReturnsString string | ReturnsMessage string | ReturnsOther

datatype checkdef = CheckDef
  (cd_zm_validation: "EffectValidator option")
  (cd_type: string)
  (cd_fn: "func option")
  (cd_error: "errorfn option")

datatype check = NoCheck | Check (c_def: "checkdef option") (c_zm_validation: "EffectValidator option")

text \<open>
  A schema node and its \<^verbatim>\<open>_def\<close>. \<open>Absent\<close> is \<^verbatim>\<open>undefined\<close> (a missing inner
  node). \<open>ctor\<close> is the instance's \<^verbatim>\<open>constructor\<close>, a class, known by its name.
  \<open>zm_type\<close> is what the lookup of \<^verbatim>\<open>__zm_type\<close> on the instance finds (own
  property or prototype), \<open>None\<close> when there is none; \<open>ntype\<close> is the instance property
  \<^verbatim>\<open>type\<close>; \<open>enum_options\<close> is \<^verbatim>\<open>field.options\<close> of an enum; \<open>shape\<close> lists
  \<^verbatim>\<open>Object.entries(obj.shape)\<close>, which never repeats a key.
\<close>

datatype node = Absent | Node
    (ctor: string)
    (zm_type: "string option")
    (zm_enhanced: bool)
    (zm_ref: "string option")
    (zm_refPath: "string option")
    (zm_unique: "bool option")
    (zm_sparse: "bool option")
    (ntype: "string option")
    (zdef: zdef)
    (element: node)
    (valueType: node)
    (shape: "(string \<times> node) list")
    (enum_options: "string list")
    (minValue: "int option")
    (maxValue: "int option")
    (minLength: "int option")
    (maxLength: "int option")
and zdef = ZDef
    (def_type: string)
    (innerType: node)
    (defaultValue: jsval)
    (options: "node list")
    (checks: "check list option")
    (def_in: node)
    (def_out: node)
    (def_schema: node)

text \<open>
  \<^verbatim>\<open>zm.mDefault\<close>, the third parameter of \<^verbatim>\<open>parseField\<close>: \<^verbatim>\<open>undefined\<close>, a closure
  \<^verbatim>\<open>() => v\<close>, or (in the effect branch, where a local \<^verbatim>\<open>def\<close> is passed on) a node's
  definition object.
\<close>

datatype mDefault = DUndefined | DProvider jsval | DObject zdef

text \<open>
  The output. A \<open>Descriptor\<close> is one of the object literals the \<^verbatim>\<open>parseX\<close> helpers
  build: a key the literal does not have, or that holds \<^verbatim>\<open>undefined\<close>, is \<open>None\<close>
  (\<open>DUndefined\<close> for \<^verbatim>\<open>default\<close>). \<open>TArray e\<close> is \<^verbatim>\<open>type: [e]\<close>. \<open>Schema\<close> is the
  object \<^verbatim>\<open>parseObject\<close> returns, keys in insertion order. \<open>Flag\<close> is a bare boolean:
  the effect branch may store one under a key of such an object.
\<close>

datatype mField =
    Descriptor
      (f_type: ftype)
      (f_default: mDefault)
      (f_required: bool)
      (f_unique: "bool option")
      (f_sparse: "bool option")
      (f_min: "int option")
      (f_max: "int option")
      (f_minLength: "int option")
      (f_maxLength: "int option")
      (f_enum: "string list option")
      (f_validate: "EffectValidator option")
      (f_ref: "string option")
      (f_refPath: "string option")
      (f_of: "mField option")
  | Schema "(string \<times> mField) list"
  | Flag bool
and ftype = TNumber | TString | TBoolean | TDate | TObjectId | TUUID | TMixed | TMap | TArray mField

text \<open>The three \<^verbatim>\<open>throw new Error(...)\<close> of the translator. The first message
  interpolates the constructor of the member and nothing else of it: the error holds
  that class. The other two messages are fixed texts. \<open>TypeError\<close> is what the engine
  throws when a property of \<^verbatim>\<open>undefined\<close> is read.\<close>

datatype error =
  UnsupportedFieldType string | UnsupportedArrayType | UnsupportedMapValueType | TypeError

section \<open>Type assertions\<close>

text \<open>The static-name assertions: \<^verbatim>\<open>f && "__zm_type" in f && f.__zm_type === K\<close>.\<close>

definition hasStaticName :: "node \<Rightarrow> string \<Rightarrow> bool" where
  "hasStaticName f k = (case f of Absent \<Rightarrow> False | Node _ t _ _ _ _ _ _ _ _ _ _ _ _ _ _ _ \<Rightarrow> t = Some k)"

definition zmAssert_string :: "node \<Rightarrow> bool" where
  "zmAssert_string f = hasStaticName f ''String''"

definition zmAssert_number :: "node \<Rightarrow> bool" where
  "zmAssert_number f = hasStaticName f ''Number''"

definition zmAssert_object :: "node \<Rightarrow> bool" where
  "zmAssert_object f = hasStaticName f ''Object''"

definition zmAssert_array :: "node \<Rightarrow> bool" where
  "zmAssert_array f = hasStaticName f ''Array''"

definition zmAssert_boolean :: "node \<Rightarrow> bool" where
  "zmAssert_boolean f = hasStaticName f ''Boolean''"

definition zmAssert_enumerable :: "node \<Rightarrow> bool" where
  "zmAssert_enumerable f = hasStaticName f ''Enum''"

definition zmAssert_date :: "node \<Rightarrow> bool" where
  "zmAssert_date f = hasStaticName f ''Date''"

definition zmAssert_def :: "node \<Rightarrow> bool" where
  "zmAssert_def f = hasStaticName f ''Default''"

definition zmAssert_optional :: "node \<Rightarrow> bool" where
  "zmAssert_optional f = hasStaticName f ''Optional''"

definition zmAssert_nullable :: "node \<Rightarrow> bool" where
  "zmAssert_nullable f = hasStaticName f ''Nullable''"

definition zmAssert_union :: "node \<Rightarrow> bool" where
  "zmAssert_union f = hasStaticName f ''Union''"

definition zmAssert_any :: "node \<Rightarrow> bool" where
  "zmAssert_any f = hasStaticName f ''Any''"

definition zmAssert_mapOrRecord :: "node \<Rightarrow> bool" where
  "zmAssert_mapOrRecord f = (hasStaticName f ''Map'' \<or> hasStaticName f ''Record'')"

definition zmAssert_effect :: "node \<Rightarrow> bool" where
  "zmAssert_effect f = hasStaticName f ''Effects''"

definition zmAssert_pipe :: "node \<Rightarrow> bool" where
  "zmAssert_pipe f = hasStaticName f ''Pipe''"

text \<open>
  Modelled from the spec: \<^verbatim>\<open>parseField\<close> takes its \<^verbatim>\<open>zmAssert\<close> from a module that is
  not among the source files, and calls two assertions, \<^verbatim>\<open>objectId\<close> and \<^verbatim>\<open>uuid\<close>,
  that the static-name assertions above do not have. The spec has the classifier decide
  by the identity marker of the node alone, and \<^verbatim>\<open>zId\<close> and \<^verbatim>\<open>zUUID\<close> set that
  marker to \<^verbatim>\<open>ObjectId\<close> and \<^verbatim>\<open>UUID\<close>: \<^verbatim>\<open>zmAssert\<close> is taken to be the static-name
  assertions, with these two beside them.
\<close>

definition zmAssert_objectId :: "node \<Rightarrow> bool" where
  "zmAssert_objectId f = hasStaticName f ''ObjectId''"

definition zmAssert_uuid :: "node \<Rightarrow> bool" where
  "zmAssert_uuid f = hasStaticName f ''UUID''"

section \<open>Augmentation of one instance\<close>

text \<open>
  \<^verbatim>\<open>enhanceZodInstance\<close> returns the instance it is given. On a node not yet marked it
  sets \<^verbatim>\<open>__zm_enhanced\<close> and replaces the instance's \<^verbatim>\<open>refine\<close> by a wrapper
  (\<open>refine_enhanced\<close> below): a node's \<^verbatim>\<open>refine\<close> is the wrapper exactly when the
  node is marked, so the mark is all the state there is.
\<close>

fun enhanceZodInstance :: "node \<Rightarrow> node" where
  "enhanceZodInstance Absent = Absent"
| "enhanceZodInstance (Node cl t e rf rp u s ty d el vt sh eo mnv mxv mnl mxl) =
     (if e then Node cl t e rf rp u s ty d el vt sh eo mnv mxv mnl mxl
      else Node cl t True rf rp u s ty d el vt sh eo mnv mxv mnl mxl)"

section \<open>Extraction of a validator from the checks\<close>

text \<open>The message of a custom check: \<^verbatim>\<open>check.def.error()\<close> inside \<^verbatim>\<open>try\<close>.\<close>

definition errorMessage :: "errorfn option \<Rightarrow> string option" where
  "errorMessage e =
     (case e of
        None \<Rightarrow> None
      | Some Throws \<Rightarrow> None
      | Some (ReturnsString s) \<Rightarrow> Some s
      | Some (ReturnsMessage s) \<Rightarrow> Some s
      | Some ReturnsOther \<Rightarrow> None)"

text \<open>\<^verbatim>\<open>message || 'Validation failed'\<close>: the empty string is falsy.\<close>

definition messageOrFailed :: "string option \<Rightarrow> string" where
  "messageOrFailed m = (case m of None \<Rightarrow> ''Validation failed''
     | Some s \<Rightarrow> (if s = [] then ''Validation failed'' else s))"

text \<open>The body of the loop for one check: \<open>Some v\<close> is \<^verbatim>\<open>return v\<close>, \<open>None\<close> goes on
  to the next check.\<close>

definition checkValidation :: "check \<Rightarrow> EffectValidator option" where
  "checkValidation c =
     (case c of
        NoCheck \<Rightarrow> None
      | Check d cv \<Rightarrow>
          (case (case d of None \<Rightarrow> None | Some cd \<Rightarrow> cd_zm_validation cd) of
             Some v \<Rightarrow> Some v
           | None \<Rightarrow>
               (case cv of
                  Some v \<Rightarrow> Some v
                | None \<Rightarrow>
                    (case d of
                       None \<Rightarrow> None
                     | Some cd \<Rightarrow>
                         (case cd_fn cd of
                            None \<Rightarrow> None
                          | Some fn \<Rightarrow>
                              (if cd_type cd = ''custom''
                               then Some (EffectValidator fn
                                      (Some (messageOrFailed (errorMessage (cd_error cd)))))
                               else None))))))"

fun extractLoop :: "check list \<Rightarrow> EffectValidator option" where
  "extractLoop [] = None"
| "extractLoop (c # cs) =
     (case checkValidation c of Some v \<Rightarrow> Some v | None \<Rightarrow> extractLoop cs)"

definition extractValidationFromChecks :: "check list option \<Rightarrow> EffectValidator option" where
  "extractValidationFromChecks cs =
     (case cs of None \<Rightarrow> None | Some l \<Rightarrow> (if l = [] then None else extractLoop l))"

section \<open>The descriptor builders\<close>

text \<open>\<^verbatim>\<open>a ?? false\<close> on an extension attribute, and a parameter \<^verbatim>\<open>unique = false\<close> that is
  passed \<^verbatim>\<open>undefined\<close>.\<close>

definition orFalse :: "bool option \<Rightarrow> bool" where
  "orFalse b = (case b of None \<Rightarrow> False | Some v \<Rightarrow> v)"

text \<open>\<^verbatim>\<open>if (ref) output.ref = ref\<close>: the key is set for a non-empty string only.\<close>

definition truthyString :: "string option \<Rightarrow> string option" where
  "truthyString s = (case s of None \<Rightarrow> None | Some t \<Rightarrow> (if t = [] then None else Some t))"

definition parseNumber ::
  "node \<Rightarrow> bool \<Rightarrow> mDefault \<Rightarrow> bool \<Rightarrow> EffectValidator option \<Rightarrow> bool \<Rightarrow> mField" where
  "parseNumber field required def unique validate sparse =
     Descriptor TNumber def required (Some unique) (Some sparse)
       (minValue field) (maxValue field) None None None validate None None None"

definition parseString ::
  "node \<Rightarrow> bool \<Rightarrow> mDefault \<Rightarrow> bool \<Rightarrow> EffectValidator option \<Rightarrow> bool \<Rightarrow> mField" where
  "parseString field required def unique validate sparse =
     Descriptor TString def required (Some unique) (Some sparse)
       None None (minLength field) (maxLength field) None validate None None None"

definition parseEnum :: "string list \<Rightarrow> bool \<Rightarrow> mDefault \<Rightarrow> mField" where
  "parseEnum values required def =
     Descriptor TString def required (Some False) (Some False)
       None None None None (Some values) None None None None"

definition parseBoolean :: "bool \<Rightarrow> mDefault \<Rightarrow> mField" where
  "parseBoolean required def =
     Descriptor TBoolean def required None None None None None None None None None None None"

definition parseDate ::
  "bool \<Rightarrow> mDefault \<Rightarrow> EffectValidator option \<Rightarrow> bool \<Rightarrow> bool \<Rightarrow> mField" where
  "parseDate required def validate unique sparse =
     Descriptor TDate def required (Some unique) (Some sparse)
       None None None None None validate None None None"

definition parseObjectId ::
  "bool \<Rightarrow> string option \<Rightarrow> bool option \<Rightarrow> string option \<Rightarrow> bool option \<Rightarrow> mField" where
  "parseObjectId required ref unique refPath sparse =
     Descriptor TObjectId DUndefined required (Some (orFalse unique)) (Some (orFalse sparse))
       None None None None None None (truthyString ref) (truthyString refPath) None"

definition parseUUID ::
  "bool \<Rightarrow> string option \<Rightarrow> bool option \<Rightarrow> string option \<Rightarrow> bool option \<Rightarrow> mField" where
  "parseUUID required ref unique refPath sparse =
     Descriptor TUUID DUndefined required (Some (orFalse unique)) (Some (orFalse sparse))
       None None None None None None (truthyString ref) (truthyString refPath) None"

definition parseMixed :: "bool \<Rightarrow> mDefault \<Rightarrow> mField" where
  "parseMixed required def =
     Descriptor TMixed def required None None None None None None None None None None None"

section \<open>The recursive translator\<close>

text \<open>
  The effect branch writes \<^verbatim>\<open>unique\<close> and \<^verbatim>\<open>sparse\<close> into whatever object the
  recursive call returned, if it has a key \<^verbatim>\<open>type\<close>: a descriptor always has one, the
  object of \<^verbatim>\<open>parseObject\<close> has one when a member is named so.
\<close>

fun setUniqueSparse :: "bool \<Rightarrow> bool \<Rightarrow> mField \<Rightarrow> mField" where
  "setUniqueSparse u s (Descriptor ty d r _ _ mn mx mnl mxl en v rf rp ofv) =
     Descriptor ty d r (Some u) (Some s) mn mx mnl mxl en v rf rp ofv"
| "setUniqueSparse u s (Schema es) =
     (if map_of es ''type'' = None then Schema es
      else Schema (AList.update ''sparse'' (Flag s) (AList.update ''unique'' (Flag u) es)))"
| "setUniqueSparse u s (Flag b) = Flag b"

text \<open>\<^verbatim>\<open>originalField && originalField.__zm_unique || false\<close>.\<close>

definition attrOrFalse :: "node \<Rightarrow> (node \<Rightarrow> bool option) \<Rightarrow> bool" where
  "attrOrFalse originalField attr =
     (case originalField of Absent \<Rightarrow> False | _ \<Rightarrow> attr originalField = Some True)"

text \<open>
  The translator proper. A call returns a value, throws, or (one branch of the effect
  case calls itself on the same node) never returns: \<open>None\<close> is "no result",
  \<open>Some (Inl e)\<close> a thrown error, \<open>Some (Inr v)\<close> the value returned; for
  \<^verbatim>\<open>parseField\<close> the returned value \<open>Some (Inr None)\<close> is \<^verbatim>\<open>null\<close>. Each function body is written once,
  over the functions it calls recursively (\<open>pf\<close> for \<^verbatim>\<open>parseField\<close>, \<open>po\<close> for
  \<^verbatim>\<open>parseObject\<close>); the knot is tied below. The omitted arguments of a call are
  written out: \<^verbatim>\<open>required = true\<close>, \<^verbatim>\<open>def\<close> and \<^verbatim>\<open>refinement\<close> \<^verbatim>\<open>undefined\<close>.
\<close>

type_synonym fieldParser =
  "node \<Rightarrow> bool \<Rightarrow> mDefault \<Rightarrow> EffectValidator option \<Rightarrow> (error + mField option) option"

type_synonym objectParser = "node \<Rightarrow> (error + mField) option"

definition parseArray ::
  "fieldParser \<Rightarrow> bool \<Rightarrow> node \<Rightarrow> mDefault \<Rightarrow> EffectValidator option \<Rightarrow> (error + mField) option"
where
  "parseArray pf required elem def elementValidation =
     (case pf elem True DUndefined elementValidation of
        None \<Rightarrow> None
      | Some (Inl e) \<Rightarrow> Some (Inl e)
      | Some (Inr None) \<Rightarrow> Some (Inl UnsupportedArrayType)
      | Some (Inr (Some inner)) \<Rightarrow>
          Some (Inr (Descriptor (TArray inner) def required None None
                       None None None None None None None None None)))"

definition parseMap ::
  "fieldParser \<Rightarrow> bool \<Rightarrow> node \<Rightarrow> mDefault \<Rightarrow> (error + mField) option"
where
  "parseMap pf required valueTy def =
     (case pf valueTy True DUndefined None of
        None \<Rightarrow> None
      | Some (Inl e) \<Rightarrow> Some (Inl e)
      | Some (Inr None) \<Rightarrow> Some (Inl UnsupportedMapValueType)
      | Some (Inr (Some pointer)) \<Rightarrow>
          Some (Inr (Descriptor TMap def required None None
                       None None None None None None None None (Some pointer))))"

text \<open>One member of an object: \<^verbatim>\<open>object[key]\<close> is assigned its value, or the loop is
  left by a throw. The message of the error reads \<^verbatim>\<open>enhancedField.constructor\<close>, which
  itself throws when the member is \<^verbatim>\<open>undefined\<close>.\<close>

definition parseMember :: "fieldParser \<Rightarrow> objectParser \<Rightarrow> node \<Rightarrow> (error + mField) option" where
  "parseMember pf po field =
     (let enhancedField = enhanceZodInstance field in
      if zmAssert_object enhancedField then po enhancedField
      else (case pf enhancedField True DUndefined None of
              None \<Rightarrow> None
            | Some (Inl e) \<Rightarrow> Some (Inl e)
            | Some (Inr None) \<Rightarrow>
                (case enhancedField of
                   Absent \<Rightarrow> Some (Inl TypeError)
                 | _ \<Rightarrow> Some (Inl (UnsupportedFieldType (ctor enhancedField))))
            | Some (Inr (Some f)) \<Rightarrow> Some (Inr f)))"

text \<open>The loop of \<^verbatim>\<open>parseObject\<close> over the entries, in order.\<close>

fun parseShape ::
  "fieldParser \<Rightarrow> objectParser \<Rightarrow> (string \<times> node) list \<Rightarrow> (error + (string \<times> mField) list) option"
where
  "parseShape pf po [] = Some (Inr [])"
| "parseShape pf po ((key, field) # rest) =
     (case parseMember pf po field of
        None \<Rightarrow> None
      | Some (Inl e) \<Rightarrow> Some (Inl e)
      | Some (Inr v) \<Rightarrow>
          (case parseShape pf po rest of
             None \<Rightarrow> None
           | Some (Inl e) \<Rightarrow> Some (Inl e)
           | Some (Inr object) \<Rightarrow> Some (Inr ((key, v) # object))))"

definition parseObject_body :: "fieldParser \<Rightarrow> objectParser \<Rightarrow> node \<Rightarrow> (error + mField) option" where
  "parseObject_body pf po obj =
     (case parseShape pf po (shape obj) of
        None \<Rightarrow> None
      | Some (Inl e) \<Rightarrow> Some (Inl e)
      | Some (Inr object) \<Rightarrow> Some (Inr (Schema object)))"

text \<open>A value of a helper that returns an object, returned by \<^verbatim>\<open>parseField\<close>.\<close>

definition returned :: "(error + mField) option \<Rightarrow> (error + mField option) option" where
  "returned r = (case r of None \<Rightarrow> None | Some (Inl e) \<Rightarrow> Some (Inl e)
     | Some (Inr v) \<Rightarrow> Some (Inr (Some v)))"

text \<open>The effect branch after its recursive call: \<^verbatim>\<open>parsed.unique = unique;
  parsed.sparse = sparse; return parsed\<close>.\<close>

definition flagged ::
  "bool \<Rightarrow> bool \<Rightarrow> (error + mField option) option \<Rightarrow> (error + mField option) option" where
  "flagged unique sparse r = (case r of None \<Rightarrow> None | Some (Inl e) \<Rightarrow> Some (Inl e)
     | Some (Inr parsed) \<Rightarrow> Some (Inr (map_option (setUniqueSparse unique sparse) parsed)))"

definition parseField_body ::
  "fieldParser \<Rightarrow> objectParser \<Rightarrow> node \<Rightarrow> bool \<Rightarrow> mDefault \<Rightarrow> EffectValidator option
     \<Rightarrow> (error + mField option) option"
where
  "parseField_body pf po field0 required def refinement =
     (let field = enhanceZodInstance field0 in
      if zmAssert_objectId field then
        Some (Inr (Some (parseObjectId required (zm_ref field) (zm_unique field)
                           (zm_refPath field) (zm_sparse field))))
      else if zmAssert_uuid field then
        Some (Inr (Some (parseUUID required (zm_ref field) (zm_unique field)
                           (zm_refPath field) (zm_unique field))))
      else if zmAssert_object field then
        returned (po field)
      else if zmAssert_number field then
        (let isUnique = orFalse (zm_unique field);
             isSparse = orFalse (zm_sparse field);
             validation = extractValidationFromChecks (checks (zdef field))
         in Some (Inr (Some (parseNumber field required def isUnique
              (case validation of Some v \<Rightarrow> Some v | None \<Rightarrow> refinement) isSparse))))
      else if zmAssert_string field then
        (let isUnique = orFalse (zm_unique field);
             isSparse = orFalse (zm_sparse field);
             validation = extractValidationFromChecks (checks (zdef field))
         in Some (Inr (Some (parseString field required def isUnique
              (case validation of Some v \<Rightarrow> Some v | None \<Rightarrow> refinement) isSparse))))
      else if zmAssert_enumerable field then
        Some (Inr (Some (parseEnum (enum_options field) required def)))
      else if zmAssert_boolean field then
        Some (Inr (Some (parseBoolean required def)))
      else if zmAssert_date field then
        (let isUnique = orFalse (zm_unique field);
             isSparse = orFalse (zm_sparse field);
             validation = extractValidationFromChecks (checks (zdef field))
         in Some (Inr (Some (parseDate required def
              (case validation of Some v \<Rightarrow> Some v | None \<Rightarrow> refinement) isUnique isSparse))))
      else if zmAssert_array field then
        (let elem = enhanceZodInstance (element field);
             elementValidation =
               (case elem of
                  Absent \<Rightarrow> None
                | _ \<Rightarrow> (case checks (zdef elem) of
                          None \<Rightarrow> None
                        | Some cs \<Rightarrow> extractValidationFromChecks (Some cs)))
         in returned (parseArray pf required elem def elementValidation))
      else if zmAssert_def field then
        pf (innerType (zdef field)) required (DProvider (defaultValue (zdef field))) None
      else if zmAssert_optional field then
        pf (innerType (zdef field)) False DUndefined None
      else if zmAssert_nullable field then
        pf (innerType (zdef field)) False
          (if def \<noteq> DUndefined then def else DProvider JNull) None
      else if zmAssert_union field then
        pf (case options (zdef field) of [] \<Rightarrow> Absent | opt # _ \<Rightarrow> opt) True DUndefined None
      else if zmAssert_any field then
        Some (Inr (Some (parseMixed required def)))
      else if zmAssert_mapOrRecord field then
        returned (parseMap pf required (valueType field) def)
      else if zmAssert_pipe field then
        (let pipeData = zdef field;
             inputType = def_in pipeData;
             outputType = def_out pipeData;
             isPreprocess =
               (inputType \<noteq> Absent \<and> ntype inputType = Some ''transform'' \<and>
                outputType \<noteq> Absent \<and> ntype outputType \<noteq> Some ''transform'')
         in if isPreprocess then pf outputType required def refinement
            else pf inputType required def refinement)
      else if zmAssert_effect field then
        (let def' = zdef field;
             originalField = (if def_in def' \<noteq> Absent then def_in def' else def_schema def');
             unique = attrOrFalse originalField zm_unique;
             sparse = attrOrFalse originalField zm_sparse
         in if def_type def' = ''string'' \<or> def_type def' = ''number'' \<or> def_type def' = ''date''
            then
              (let validation = refinement in
               flagged unique sparse
                 (pf (if originalField \<noteq> Absent then originalField else field)
                     required (DObject def') validation))
            else if def_type def' = ''pipe'' \<or> def_type def' = ''transform'' then
              flagged unique sparse (pf originalField required (DObject def') refinement)
            else Some (Inr None))
      else Some (Inr None))"

text \<open>
  The recursion. The first argument bounds the depth of nested calls of
  \<^verbatim>\<open>parseField\<close> and \<^verbatim>\<open>parseObject\<close>; a call that needs more has no result.
\<close>

fun parseField ::
      "nat \<Rightarrow> node \<Rightarrow> bool \<Rightarrow> mDefault \<Rightarrow> EffectValidator option
        \<Rightarrow> (error + mField option) option"
  and parseObject :: "nat \<Rightarrow> node \<Rightarrow> (error + mField) option"
where
  "parseField 0 field required def refinement = None"
| "parseField (Suc n) field required def refinement =
     parseField_body (parseField n) (parseObject n) field required def refinement"
| "parseObject 0 obj = None"
| "parseObject (Suc n) obj = parseObject_body (parseField n) (parseObject n) obj"

text \<open>The entry point \<^verbatim>\<open>zodSchemaRaw\<close>; \<^verbatim>\<open>zodSchema\<close> hands the same object to the
  mapping library's constructor.\<close>

definition zodSchemaRaw :: "nat \<Rightarrow> node \<Rightarrow> (error + mField) option" where
  "zodSchemaRaw n schema = parseObject n schema"

section \<open>The refine wrapper and the chainable methods\<close>



fun set_zm_unique :: "bool option \<Rightarrow> node \<Rightarrow> node" where
  "set_zm_unique a Absent = Absent"
| "set_zm_unique a (Node cl t e rf rp u s ty d el vt sh eo mnv mxv mnl mxl) =
     Node cl t e rf rp a s ty d el vt sh eo mnv mxv mnl mxl"

fun set_zm_sparse :: "bool option \<Rightarrow> node \<Rightarrow> node" where
  "set_zm_sparse a Absent = Absent"
| "set_zm_sparse a (Node cl t e rf rp u s ty d el vt sh eo mnv mxv mnl mxl) =
     Node cl t e rf rp u a ty d el vt sh eo mnv mxv mnl mxl"

fun set_checks :: "check list option \<Rightarrow> node \<Rightarrow> node" where
  "set_checks cs Absent = Absent"
| "set_checks cs (Node cl t e rf rp u s ty (ZDef dt it dv os ch di dou ds) el vt sh eo mnv mxv mnl mxl) =
     Node cl t e rf rp u s ty (ZDef dt it dv os cs di dou ds) el vt sh eo mnv mxv mnl mxl"

text \<open>\<^verbatim>\<open>lastCheck.def.__zm_validation = {validator, message}\<close>, done when the last
  check has a \<^verbatim>\<open>def\<close> of type \<^verbatim>\<open>custom\<close>.\<close>

definition storeValidation :: "EffectValidator \<Rightarrow> check \<Rightarrow> check" where
  "storeValidation v c =
     (case c of
        NoCheck \<Rightarrow> NoCheck
      | Check None cv \<Rightarrow> Check None cv
      | Check (Some cd) cv \<Rightarrow>
          (if cd_type cd = ''custom''
           then Check (Some (CheckDef (Some v) (cd_type cd) (cd_fn cd) (cd_error cd))) cv
           else Check (Some cd) cv))"

fun storeInLast :: "EffectValidator \<Rightarrow> check list \<Rightarrow> check list" where
  "storeInLast v [] = []"
| "storeInLast v [c] = [storeValidation v c]"
| "storeInLast v (c # c' # cs) = c # storeInLast v (c' # cs)"







section \<open>Registration of the extension\<close>

text \<open>
  The library object \<^verbatim>\<open>z_0\<close> maps a class name to the class, when it has one of that
  name; of a class the model keeps the three prototype properties \<^verbatim>\<open>extendZod\<close>
  assigns. The two functions it assigns are closures of its own; any other function is
  named.
\<close>

datatype protoFunction = ZmUnique | ZmSparse | OtherMethod string

record proto =
  unique_method :: "protoFunction option"
  sparse_method :: "protoFunction option"
  static_name :: "string option"

type_synonym zlib = "string \<rightharpoonup> proto"

definition UNIQUE_SUPPORT_LIST :: "string list" where
  "UNIQUE_SUPPORT_LIST = [''ZodString'', ''ZodNumber'', ''ZodDate'']"

definition TypesMap :: "(string \<times> string) list" where
  "TypesMap =
     [(''String'', ''ZodString''), (''Number'', ''ZodNumber''), (''Object'', ''ZodObject''),
      (''Array'', ''ZodArray''), (''Boolean'', ''ZodBoolean''), (''Enum'', ''ZodEnum''),
      (''Date'', ''ZodDate''), (''Default'', ''ZodDefault''), (''Optional'', ''ZodOptional''),
      (''Nullable'', ''ZodNullable''), (''Union'', ''ZodUnion''), (''Any'', ''ZodAny''),
      (''Map'', ''ZodMap''), (''Record'', ''ZodRecord''), (''Effects'', ''ZodTransform''),
      (''Pipe'', ''ZodPipe'')]"

text \<open>The two loops. \<^verbatim>\<open>type.prototype\<close> throws when the library has no such class;
  what was assigned before stays assigned.\<close>

fun addUniqueSupport :: "string list \<Rightarrow> zlib \<Rightarrow> error option \<times> zlib" where
  "addUniqueSupport [] z = (None, z)"
| "addUniqueSupport (c # cs) z =
     (case z c of
        None \<Rightarrow> (Some TypeError, z)
      | Some p \<Rightarrow>
          addUniqueSupport cs
            (z(c \<mapsto> p\<lparr>unique_method := Some ZmUnique, sparse_method := Some ZmSparse\<rparr>)))"

fun assignStaticNames :: "(string \<times> string) list \<Rightarrow> zlib \<Rightarrow> error option \<times> zlib" where
  "assignStaticNames [] z = (None, z)"
| "assignStaticNames ((key, c) # rest) z =
     (case z c of
        None \<Rightarrow> (Some TypeError, z)
      | Some p \<Rightarrow> assignStaticNames rest (z(c \<mapsto> p\<lparr>static_name := Some key\<rparr>)))"

text \<open>\<^verbatim>\<open>extendZod\<close>, over the module variable \<^verbatim>\<open>zod_extended\<close> and the library it is
  given: the error thrown if any, the variable and the library afterwards.\<close>

definition extendZod :: "bool \<Rightarrow> zlib \<Rightarrow> error option \<times> bool \<times> zlib" where
  "extendZod zod_extended z_0 =
     (if zod_extended then (None, zod_extended, z_0)
      else (case addUniqueSupport UNIQUE_SUPPORT_LIST z_0 of
              (Some e, z_1) \<Rightarrow> (Some e, True, z_1)
            | (None, z_1) \<Rightarrow>
                (case assignStaticNames TypesMap z_1 of (e, z_2) \<Rightarrow> (e, True, z_2))))"

section \<open>Vocabulary of the properties\<close>

text \<open>What a call of \<^verbatim>\<open>parseField\<close> returned, when it returned a descriptor: its
  \<^verbatim>\<open>required\<close>, its \<^verbatim>\<open>default\<close>.\<close>

definition requiredOf :: "(error + mField option) option \<Rightarrow> bool option" where
  "requiredOf res =
     (case res of
        Some (Inr (Some (Descriptor ty d r u s mn mx mnl mxl en v rf rp ofv))) \<Rightarrow> Some r
      | _ \<Rightarrow> None)"

definition defaultOf :: "(error + mField option) option \<Rightarrow> mDefault option" where
  "defaultOf res =
     (case res of
        Some (Inr (Some (Descriptor ty d r u s mn mx mnl mxl en v rf rp ofv))) \<Rightarrow> Some d
      | _ \<Rightarrow> None)"

text \<open>The kinds whose branch builds a descriptor from the \<^verbatim>\<open>required\<close> and the
  \<^verbatim>\<open>def\<close> it was called with, without a further call.\<close>

definition contextKind :: "node \<Rightarrow> bool" where
  "contextKind x =
     (zmAssert_number x \<or> zmAssert_string x \<or> zmAssert_enumerable x \<or>
      zmAssert_boolean x \<or> zmAssert_date x \<or> zmAssert_any x)"

text \<open>The validator the array branch takes from the checks of the element.\<close>

definition elementValidationOf :: "node \<Rightarrow> EffectValidator option" where
  "elementValidationOf elem =
     (case elem of
        Absent \<Rightarrow> None
      | _ \<Rightarrow> (case checks (zdef elem) of
                None \<Rightarrow> None
              | Some cs \<Rightarrow> extractValidationFromChecks (Some cs)))"

text \<open>The kinds that have no branch at all.\<close>

definition unknownKind :: "node \<Rightarrow> bool" where
  "unknownKind x =
     (\<not> (zmAssert_objectId x \<or> zmAssert_uuid x \<or> zmAssert_object x \<or> zmAssert_number x \<or>
         zmAssert_string x \<or> zmAssert_enumerable x \<or> zmAssert_boolean x \<or> zmAssert_date x \<or>
         zmAssert_array x \<or> zmAssert_def x \<or> zmAssert_optional x \<or> zmAssert_nullable x \<or>
         zmAssert_union x \<or> zmAssert_any x \<or> zmAssert_mapOrRecord x \<or> zmAssert_pipe x \<or>
         zmAssert_effect x))"

text \<open>A chain of wrappers: \<open>wraps ws f x\<close> when \<open>f\<close> is \<open>x\<close> under the wrappers \<open>ws\<close>,
  outermost first.\<close>

datatype wrapper = WOptional | WDefault | WNullable

fun isWrapper :: "wrapper \<Rightarrow> node \<Rightarrow> bool" where
  "isWrapper WOptional f = zmAssert_optional f"
| "isWrapper WDefault f = zmAssert_def f"
| "isWrapper WNullable f = zmAssert_nullable f"

fun wraps :: "wrapper list \<Rightarrow> node \<Rightarrow> node \<Rightarrow> bool" where
  "wraps [] f x = (f = x)"
| "wraps (w # ws) f x = (isWrapper w f \<and> wraps ws (innerType (zdef f)) x)"

text \<open>
  Example nodes, as the builders of the validation library make them once
  \<^verbatim>\<open>extendZod\<close> has named the classes: a fresh instance has none of the extension's
  own properties. \<open>z_bigint\<close> is an instance of a class \<^verbatim>\<open>extendZod\<close> gives no name.
\<close>

definition z_node :: "string \<Rightarrow> string option \<Rightarrow> zdef \<Rightarrow> node" where
  "z_node cl t d =
     Node cl t False None None None None (Some (def_type d)) d Absent Absent [] [] None None None None"

definition z_string :: node where
  "z_string = z_node ''ZodString'' (Some ''String'') (ZDef ''string'' Absent JNull [] (Some []) Absent Absent Absent)"

definition z_number :: node where
  "z_number = z_node ''ZodNumber'' (Some ''Number'') (ZDef ''number'' Absent JNull [] (Some []) Absent Absent Absent)"

definition z_bigint :: node where
  "z_bigint = z_node ''ZodBigInt'' None (ZDef ''bigint'' Absent JNull [] (Some []) Absent Absent Absent)"

definition z_optional :: "node \<Rightarrow> node" where
  "z_optional x = z_node ''ZodOptional'' (Some ''Optional'') (ZDef ''optional'' x JNull [] None Absent Absent Absent)"

definition z_nullable :: "node \<Rightarrow> node" where
  "z_nullable x = z_node ''ZodNullable'' (Some ''Nullable'') (ZDef ''nullable'' x JNull [] None Absent Absent Absent)"

definition z_default :: "node \<Rightarrow> jsval \<Rightarrow> node" where
  "z_default x v = z_node ''ZodDefault'' (Some ''Default'') (ZDef ''default'' x v [] None Absent Absent Absent)"

definition z_union :: "node list \<Rightarrow> node" where
  "z_union os = z_node ''ZodUnion'' (Some ''Union'') (ZDef ''union'' Absent JNull os None Absent Absent Absent)"

definition z_array :: "node \<Rightarrow> node" where
  "z_array x =
     Node ''ZodArray'' (Some ''Array'') False None None None None (Some ''array'')
       (ZDef ''array'' Absent JNull [] None Absent Absent Absent)
       x Absent [] [] None None None None"

definition z_map :: "node \<Rightarrow> node" where
  "z_map x =
     Node ''ZodMap'' (Some ''Map'') False None None None None (Some ''map'')
       (ZDef ''map'' Absent JNull [] None Absent Absent Absent)
       Absent x [] [] None None None None"

definition z_object :: "(string \<times> node) list \<Rightarrow> node" where
  "z_object sh =
     Node ''ZodObject'' (Some ''Object'') False None None None None (Some ''object'')
       (ZDef ''object'' Absent JNull [] None Absent Absent Absent)
       Absent Absent sh [] None None None None"

text \<open>The \<^verbatim>\<open>validate\<close> of a returned descriptor (\<open>Some None\<close>: it has none).\<close>

definition validateOf :: "(error + mField option) option \<Rightarrow> EffectValidator option option" where
  "validateOf res =
     (case res of
        Some (Inr (Some (Descriptor ty d r u s mn mx mnl mxl en v rf rp ofv))) \<Rightarrow> Some v
      | _ \<Rightarrow> None)"

definition sparseOf :: "(error + mField option) option \<Rightarrow> bool option option" where
  "sparseOf res =
     (case res of
        Some (Inr (Some (Descriptor ty d r u s mn mx mnl mxl en v rf rp ofv))) \<Rightarrow> Some s
      | _ \<Rightarrow> None)"

definition uniqueOf :: "(error + mField option) option \<Rightarrow> bool option option" where
  "uniqueOf res =
     (case res of
        Some (Inr (Some (Descriptor ty d r u s mn mx mnl mxl en v rf rp ofv))) \<Rightarrow> Some u
      | _ \<Rightarrow> None)"

text \<open>The string, number and date kinds, whose branches extract a validator.\<close>

definition primitiveKind :: "node \<Rightarrow> bool" where
  "primitiveKind x = (zmAssert_number x \<or> zmAssert_string x \<or> zmAssert_date x)"

text \<open>A check that carries a validator record, as the refine wrapper leaves it.\<close>

definition recordCheck :: "func \<Rightarrow> string \<Rightarrow> check" where
  "recordCheck fn msg =
     Check (Some (CheckDef (Some (EffectValidator fn (Some msg))) ''custom'' (Some fn) None)) None"

section \<open>The identifier builders\<close>

fun set_zm_type :: "string option \<Rightarrow> node \<Rightarrow> node" where
  "set_zm_type a Absent = Absent"
| "set_zm_type a (Node cl t e rf rp u s ty d el vt sh eo mnv mxv mnl mxl) =
     Node cl a e rf rp u s ty d el vt sh eo mnv mxv mnl mxl"

fun set_zm_ref :: "string option \<Rightarrow> node \<Rightarrow> node" where
  "set_zm_ref a Absent = Absent"
| "set_zm_ref a (Node cl t e rf rp u s ty d el vt sh eo mnv mxv mnl mxl) =
     Node cl t e a rp u s ty d el vt sh eo mnv mxv mnl mxl"

fun set_zm_refPath :: "string option \<Rightarrow> node \<Rightarrow> node" where
  "set_zm_refPath a Absent = Absent"
| "set_zm_refPath a (Node cl t e rf rp u s ty d el vt sh eo mnv mxv mnl mxl) =
     Node cl t e rf a u s ty d el vt sh eo mnv mxv mnl mxl"

text \<open>
  \<^verbatim>\<open>createId\<close> and \<^verbatim>\<open>createUUID\<close> ask the library for a union of a string (refined,
  or with the uuid format) and an instance test; of that union the translator reads the
  marker and the extension attributes only.
\<close>

definition createId :: node where
  "createId =
     z_union [set_checks (Some [Check (Some (CheckDef None ''custom'' (Some (Func ''isValidObjectId''))
                                  (Some (ReturnsString ''Invalid ObjectId'')))) None]) z_string,
              z_node ''ZodCustom'' None (ZDef ''custom'' Absent JNull [] None Absent Absent Absent)]"

definition createUUID :: node where
  "createUUID =
     z_union [set_checks (Some [Check None None]) z_string,
              z_node ''ZodCustom'' None (ZDef ''custom'' Absent JNull [] None Absent Absent Absent)]"

definition zId :: "string option \<Rightarrow> node" where
  "zId ref = set_zm_ref ref (set_zm_type (Some ''ObjectId'') createId)"

definition zUUID :: "string option \<Rightarrow> node" where
  "zUUID ref = set_zm_ref ref (set_zm_type (Some ''UUID'') createUUID)"

text \<open>The four methods both builders put on the node they return.\<close>

definition id_ref :: "string \<Rightarrow> node \<Rightarrow> node" where
  "id_ref ref this = set_zm_ref (Some ref) this"

definition id_refPath :: "string \<Rightarrow> node \<Rightarrow> node" where
  "id_refPath ref this = set_zm_refPath (Some ref) this"

definition id_unique :: "bool \<Rightarrow> node \<Rightarrow> node" where
  "id_unique val this = set_zm_unique (Some val) this"

definition id_sparse :: "bool \<Rightarrow> node \<Rightarrow> node" where
  "id_sparse val this = set_zm_sparse (Some val) this"

text \<open>The \<^verbatim>\<open>required\<close> and \<^verbatim>\<open>def\<close> with which the node under a chain of wrappers is
  translated, given those the outermost wrapper was called with.\<close>

fun chainContext :: "wrapper list \<Rightarrow> node \<Rightarrow> bool \<times> mDefault \<Rightarrow> bool \<times> mDefault" where
  "chainContext [] f c = c"
| "chainContext (WOptional # ws) f (r, d) =
     chainContext ws (innerType (zdef f)) (False, DUndefined)"
| "chainContext (WDefault # ws) f (r, d) =
     chainContext ws (innerType (zdef f)) (r, DProvider (defaultValue (zdef f)))"
| "chainContext (WNullable # ws) f (r, d) =
     chainContext ws (innerType (zdef f)) (False, if d \<noteq> DUndefined then d else DProvider JNull)"

text \<open>A node of the class named \<^verbatim>\<open>Effects\<close> whose definition has the type
  \<^verbatim>\<open>transform\<close> and an input side.\<close>

definition z_transform :: "node \<Rightarrow> node" where
  "z_transform x =
     z_node ''ZodTransform'' (Some ''Effects'') (ZDef ''transform'' Absent JNull [] None x Absent Absent)"


text \<open>A library that has the sixteen classes \<^verbatim>\<open>extendZod\<close> names, none of them
  touched yet; and one without the classes \<^verbatim>\<open>ZodTransform\<close> and \<^verbatim>\<open>ZodPipe\<close>.\<close>

definition untouched :: proto where
  "untouched = \<lparr>unique_method = None, sparse_method = None, static_name = None\<rparr>"

definition zod_v4 :: zlib where
  "zod_v4 = map_of (map (\<lambda>(key, c). (c, untouched)) TypesMap)"

definition zod_v3 :: zlib where
  "zod_v3 = zod_v4(''ZodTransform'' := None, ''ZodPipe'' := None)"

text \<open>
  The effect branch: \<^verbatim>\<open>def.in || def.schema\<close>; the types of definition for which the
  branch makes a recursive call; and the node that call translates (the node itself
  when there is no original field and the type is one of the first three).
\<close>

definition originalField :: "node \<Rightarrow> node" where
  "originalField f = (if def_in (zdef f) \<noteq> Absent then def_in (zdef f) else def_schema (zdef f))"

definition refinedPrimitiveType :: "node \<Rightarrow> bool" where
  "refinedPrimitiveType f =
     (def_type (zdef f) = ''string'' \<or> def_type (zdef f) = ''number'' \<or>
      def_type (zdef f) = ''date'')"

definition effectType :: "node \<Rightarrow> bool" where
  "effectType f =
     (refinedPrimitiveType f \<or> def_type (zdef f) = ''pipe'' \<or> def_type (zdef f) = ''transform'')"

definition effectTarget :: "node \<Rightarrow> node" where
  "effectTarget f =
     (if originalField f = Absent \<and> refinedPrimitiveType f then enhanceZodInstance f
      else originalField f)"

text \<open>One field parser, or object parser, returns whatever another returns.\<close>

definition fieldParserLe :: "fieldParser \<Rightarrow> fieldParser \<Rightarrow> bool" where
  "fieldParserLe pf pf' = (\<forall>x r d v y. pf x r d v = Some y \<longrightarrow> pf' x r d v = Some y)"

definition objectParserLe :: "objectParser \<Rightarrow> objectParser \<Rightarrow> bool" where
  "objectParserLe po po' = (\<forall>x y. po x = Some y \<longrightarrow> po' x = Some y)"

section \<open>Each branch of the translator\<close>

lemmas zmAssert_defs = zmAssert_objectId_def zmAssert_uuid_def zmAssert_object_def
  zmAssert_number_def zmAssert_string_def zmAssert_enumerable_def zmAssert_boolean_def
  zmAssert_date_def zmAssert_array_def zmAssert_def_def zmAssert_optional_def
  zmAssert_nullable_def zmAssert_union_def zmAssert_any_def zmAssert_mapOrRecord_def
  zmAssert_pipe_def zmAssert_effect_def

lemma hasStaticName_enhance [simp]:
  "hasStaticName (enhanceZodInstance f) k = hasStaticName f k"
  by (cases f) (simp_all add: hasStaticName_def)

lemma hasStaticName_unique:
  "hasStaticName f k \<Longrightarrow> hasStaticName f k' = (k' = k)"
  by (cases f) (auto simp add: hasStaticName_def)

lemma enhance_sel [simp]:
  "zdef (enhanceZodInstance f) = zdef f"
  "zm_ref (enhanceZodInstance f) = zm_ref f"
  "zm_refPath (enhanceZodInstance f) = zm_refPath f"
  "zm_unique (enhanceZodInstance f) = zm_unique f"
  "zm_sparse (enhanceZodInstance f) = zm_sparse f"
  "element (enhanceZodInstance f) = element f"
  "valueType (enhanceZodInstance f) = valueType f"
  "shape (enhanceZodInstance f) = shape f"
  "enum_options (enhanceZodInstance f) = enum_options f"
  "minValue (enhanceZodInstance f) = minValue f"
  "maxValue (enhanceZodInstance f) = maxValue f"
  "minLength (enhanceZodInstance f) = minLength f"
  "maxLength (enhanceZodInstance f) = maxLength f"
  "ntype (enhanceZodInstance f) = ntype f"
  "zm_type (enhanceZodInstance f) = zm_type f"
  "ctor (enhanceZodInstance f) = ctor f"
  by (cases f; simp)+

lemma enhance_Absent_iff [simp]: "(enhanceZodInstance f = Absent) = (f = Absent)"
  by (cases f) simp_all

lemma enhance_idem [simp]: "enhanceZodInstance (enhanceZodInstance f) = enhanceZodInstance f"
  by (cases f) simp_all

lemma zmAssert_enhance [simp]:
  "zmAssert_objectId (enhanceZodInstance f) = zmAssert_objectId f"
  "zmAssert_uuid (enhanceZodInstance f) = zmAssert_uuid f"
  "zmAssert_object (enhanceZodInstance f) = zmAssert_object f"
  "zmAssert_number (enhanceZodInstance f) = zmAssert_number f"
  "zmAssert_string (enhanceZodInstance f) = zmAssert_string f"
  "zmAssert_enumerable (enhanceZodInstance f) = zmAssert_enumerable f"
  "zmAssert_boolean (enhanceZodInstance f) = zmAssert_boolean f"
  "zmAssert_date (enhanceZodInstance f) = zmAssert_date f"
  "zmAssert_array (enhanceZodInstance f) = zmAssert_array f"
  "zmAssert_def (enhanceZodInstance f) = zmAssert_def f"
  "zmAssert_optional (enhanceZodInstance f) = zmAssert_optional f"
  "zmAssert_nullable (enhanceZodInstance f) = zmAssert_nullable f"
  "zmAssert_union (enhanceZodInstance f) = zmAssert_union f"
  "zmAssert_any (enhanceZodInstance f) = zmAssert_any f"
  "zmAssert_mapOrRecord (enhanceZodInstance f) = zmAssert_mapOrRecord f"
  "zmAssert_pipe (enhanceZodInstance f) = zmAssert_pipe f"
  "zmAssert_effect (enhanceZodInstance f) = zmAssert_effect f"
  by (simp_all add: zmAssert_defs)

lemma returned_simps [simp]:
  "returned None = None"
  "returned (Some (Inl e)) = Some (Inl e)"
  "returned (Some (Inr x)) = Some (Inr (Some x))"
  by (simp_all add: returned_def)

lemma flagged_simps [simp]:
  "flagged u s None = None"
  "flagged u s (Some (Inl e)) = Some (Inl e)"
  "flagged u s (Some (Inr p)) = Some (Inr (map_option (setUniqueSparse u s) p))"
  by (simp_all add: flagged_def)

text \<open>What the body of \<^verbatim>\<open>parseField\<close> does for a node of each kind, over any
  functions for its recursive calls.\<close>

lemma parseField_body_objectId:
  "zmAssert_objectId f \<Longrightarrow>
   parseField_body pf po f r d v =
     Some (Inr (Some (parseObjectId r (zm_ref f) (zm_unique f) (zm_refPath f) (zm_sparse f))))"
  by (simp add: parseField_body_def zmAssert_defs)

lemma parseField_body_uuid:
  "zmAssert_uuid f \<Longrightarrow>
   parseField_body pf po f r d v =
     Some (Inr (Some (parseUUID r (zm_ref f) (zm_unique f) (zm_refPath f) (zm_unique f))))"
  by (simp add: parseField_body_def zmAssert_defs hasStaticName_unique [of f "''UUID''"])

lemma parseField_body_object:
  "zmAssert_object f \<Longrightarrow>
   parseField_body pf po f r d v = returned (po (enhanceZodInstance f))"
  by (simp add: parseField_body_def zmAssert_defs hasStaticName_unique [of f "''Object''"])

lemma parseField_body_number:
  "zmAssert_number f \<Longrightarrow>
   parseField_body pf po f r d v =
     Some (Inr (Some (parseNumber (enhanceZodInstance f) r d (orFalse (zm_unique f))
       (case extractValidationFromChecks (checks (zdef f)) of Some w \<Rightarrow> Some w | None \<Rightarrow> v)
       (orFalse (zm_sparse f)))))"
  by (simp add: parseField_body_def zmAssert_defs hasStaticName_unique [of f "''Number''"])

lemma parseField_body_string:
  "zmAssert_string f \<Longrightarrow>
   parseField_body pf po f r d v =
     Some (Inr (Some (parseString (enhanceZodInstance f) r d (orFalse (zm_unique f))
       (case extractValidationFromChecks (checks (zdef f)) of Some w \<Rightarrow> Some w | None \<Rightarrow> v)
       (orFalse (zm_sparse f)))))"
  by (simp add: parseField_body_def zmAssert_defs hasStaticName_unique [of f "''String''"])

lemma parseField_body_enum:
  "zmAssert_enumerable f \<Longrightarrow>
   parseField_body pf po f r d v = Some (Inr (Some (parseEnum (enum_options f) r d)))"
  by (simp add: parseField_body_def zmAssert_defs hasStaticName_unique [of f "''Enum''"])

lemma parseField_body_boolean:
  "zmAssert_boolean f \<Longrightarrow>
   parseField_body pf po f r d v = Some (Inr (Some (parseBoolean r d)))"
  by (simp add: parseField_body_def zmAssert_defs hasStaticName_unique [of f "''Boolean''"])

lemma parseField_body_date:
  "zmAssert_date f \<Longrightarrow>
   parseField_body pf po f r d v =
     Some (Inr (Some (parseDate r d
       (case extractValidationFromChecks (checks (zdef f)) of Some w \<Rightarrow> Some w | None \<Rightarrow> v)
       (orFalse (zm_unique f)) (orFalse (zm_sparse f)))))"
  by (simp add: parseField_body_def zmAssert_defs hasStaticName_unique [of f "''Date''"])

lemma parseField_body_array:
  "zmAssert_array f \<Longrightarrow>
   parseField_body pf po f r d v =
     (let elem = enhanceZodInstance (element f) in
      returned (parseArray pf r elem d
       (case elem of
          Absent \<Rightarrow> None
        | _ \<Rightarrow> (case checks (zdef elem) of
                  None \<Rightarrow> None
                | Some cs \<Rightarrow> extractValidationFromChecks (Some cs)))))"
  by (simp add: parseField_body_def zmAssert_defs hasStaticName_unique [of f "''Array''"])

lemma parseField_body_default:
  "zmAssert_def f \<Longrightarrow>
   parseField_body pf po f r d v =
     pf (innerType (zdef f)) r (DProvider (defaultValue (zdef f))) None"
  by (simp add: parseField_body_def zmAssert_defs hasStaticName_unique [of f "''Default''"])

lemma parseField_body_optional:
  "zmAssert_optional f \<Longrightarrow>
   parseField_body pf po f r d v = pf (innerType (zdef f)) False DUndefined None"
  by (simp add: parseField_body_def zmAssert_defs hasStaticName_unique [of f "''Optional''"])

lemma parseField_body_nullable:
  "zmAssert_nullable f \<Longrightarrow>
   parseField_body pf po f r d v =
     pf (innerType (zdef f)) False (if d \<noteq> DUndefined then d else DProvider JNull) None"
  by (simp add: parseField_body_def zmAssert_defs hasStaticName_unique [of f "''Nullable''"])

lemma parseField_body_union:
  "zmAssert_union f \<Longrightarrow>
   parseField_body pf po f r d v =
     pf (case options (zdef f) of [] \<Rightarrow> Absent | opt # _ \<Rightarrow> opt) True DUndefined None"
  by (simp add: parseField_body_def zmAssert_defs hasStaticName_unique [of f "''Union''"])

lemma parseField_body_any:
  "zmAssert_any f \<Longrightarrow>
   parseField_body pf po f r d v = Some (Inr (Some (parseMixed r d)))"
  by (simp add: parseField_body_def zmAssert_defs hasStaticName_unique [of f "''Any''"])

lemma parseField_body_map:
  assumes "zmAssert_mapOrRecord f"
  shows "parseField_body pf po f r d v = returned (parseMap pf r (valueType f) d)"
proof -
  from assms consider (m) "hasStaticName f ''Map''" | (r) "hasStaticName f ''Record''"
    by (auto simp add: zmAssert_mapOrRecord_def)
  then show ?thesis
  proof cases
    case m
    show ?thesis
      by (simp add: parseField_body_def zmAssert_defs hasStaticName_unique [OF m])
  next
    case r
    show ?thesis
      by (simp add: parseField_body_def zmAssert_defs hasStaticName_unique [OF r])
  qed
qed

lemma parseField_body_pipe:
  "zmAssert_pipe f \<Longrightarrow>
   parseField_body pf po f r d v =
     (if def_in (zdef f) \<noteq> Absent \<and> ntype (def_in (zdef f)) = Some ''transform'' \<and>
         def_out (zdef f) \<noteq> Absent \<and> ntype (def_out (zdef f)) \<noteq> Some ''transform''
      then pf (def_out (zdef f)) r d v
      else pf (def_in (zdef f)) r d v)"
  by (simp add: parseField_body_def zmAssert_defs Let_def hasStaticName_unique [of f "''Pipe''"])

lemma parseField_body_effect:
  "zmAssert_effect f \<Longrightarrow>
   parseField_body pf po f r d v =
     (if effectType f
      then flagged (attrOrFalse (originalField f) zm_unique) (attrOrFalse (originalField f) zm_sparse)
             (pf (effectTarget f) r (DObject (zdef f)) v)
      else Some (Inr None))"
  by (simp add: parseField_body_def zmAssert_defs Let_def
      hasStaticName_unique [of f "''Effects''"] originalField_def effectType_def
      effectTarget_def refinedPrimitiveType_def)

lemma parseField_body_unknown:
  "unknownKind f \<Longrightarrow> parseField_body pf po f r d v = Some (Inr None)"
  by (simp add: parseField_body_def unknownKind_def)

text \<open>A node is of one of the seventeen kinds, or of none.\<close>

lemma kind_cases:
  obtains "zmAssert_objectId f" | "zmAssert_uuid f" | "zmAssert_object f" | "zmAssert_number f"
    | "zmAssert_string f" | "zmAssert_enumerable f" | "zmAssert_boolean f" | "zmAssert_date f"
    | "zmAssert_array f" | "zmAssert_def f" | "zmAssert_optional f" | "zmAssert_nullable f"
    | "zmAssert_union f" | "zmAssert_any f" | "zmAssert_mapOrRecord f" | "zmAssert_pipe f"
    | "zmAssert_effect f" | "unknownKind f"
  unfolding unknownKind_def by blast

text \<open>The same for the translator at a depth.\<close>

declare parseField.simps(2) [simp del] parseObject.simps(2) [simp del]

lemmas parseField_Suc = parseField.simps(2)

lemmas parseObject_Suc = parseObject.simps(2)

lemma parseField_optional:
  "zmAssert_optional f \<Longrightarrow>
   parseField (Suc n) f r d v = parseField n (innerType (zdef f)) False DUndefined None"
  by (simp add: parseField_Suc parseField_body_optional)

lemma parseField_default:
  "zmAssert_def f \<Longrightarrow>
   parseField (Suc n) f r d v =
     parseField n (innerType (zdef f)) r (DProvider (defaultValue (zdef f))) None"
  by (simp add: parseField_Suc parseField_body_default)

lemma parseField_nullable:
  "zmAssert_nullable f \<Longrightarrow>
   parseField (Suc n) f r d v =
     parseField n (innerType (zdef f)) False (if d \<noteq> DUndefined then d else DProvider JNull) None"
  by (simp add: parseField_Suc parseField_body_nullable)

lemma parseField_union:
  "zmAssert_union f \<Longrightarrow>
   parseField (Suc n) f r d v =
     parseField n (case options (zdef f) of [] \<Rightarrow> Absent | opt # _ \<Rightarrow> opt) True DUndefined None"
  by (simp add: parseField_Suc parseField_body_union)

lemma parseField_string:
  "zmAssert_string f \<Longrightarrow>
   parseField (Suc n) f r d v =
     Some (Inr (Some (parseString (enhanceZodInstance f) r d (orFalse (zm_unique f))
       (case extractValidationFromChecks (checks (zdef f)) of Some w \<Rightarrow> Some w | None \<Rightarrow> v)
       (orFalse (zm_sparse f)))))"
  by (simp add: parseField_Suc parseField_body_string)

lemma parseField_number:
  "zmAssert_number f \<Longrightarrow>
   parseField (Suc n) f r d v =
     Some (Inr (Some (parseNumber (enhanceZodInstance f) r d (orFalse (zm_unique f))
       (case extractValidationFromChecks (checks (zdef f)) of Some w \<Rightarrow> Some w | None \<Rightarrow> v)
       (orFalse (zm_sparse f)))))"
  by (simp add: parseField_Suc parseField_body_number)

lemma parseField_date:
  "zmAssert_date f \<Longrightarrow>
   parseField (Suc n) f r d v =
     Some (Inr (Some (parseDate r d
       (case extractValidationFromChecks (checks (zdef f)) of Some w \<Rightarrow> Some w | None \<Rightarrow> v)
       (orFalse (zm_unique f)) (orFalse (zm_sparse f)))))"
  by (simp add: parseField_Suc parseField_body_date)

lemma parseField_enum:
  "zmAssert_enumerable f \<Longrightarrow>
   parseField (Suc n) f r d v = Some (Inr (Some (parseEnum (enum_options f) r d)))"
  by (simp add: parseField_Suc parseField_body_enum)

lemma parseField_boolean:
  "zmAssert_boolean f \<Longrightarrow>
   parseField (Suc n) f r d v = Some (Inr (Some (parseBoolean r d)))"
  by (simp add: parseField_Suc parseField_body_boolean)

lemma parseField_any:
  "zmAssert_any f \<Longrightarrow>
   parseField (Suc n) f r d v = Some (Inr (Some (parseMixed r d)))"
  by (simp add: parseField_Suc parseField_body_any)

lemma parseField_objectId:
  "zmAssert_objectId f \<Longrightarrow>
   parseField (Suc n) f r d v =
     Some (Inr (Some (parseObjectId r (zm_ref f) (zm_unique f) (zm_refPath f) (zm_sparse f))))"
  by (simp add: parseField_Suc parseField_body_objectId)

lemma parseField_uuid:
  "zmAssert_uuid f \<Longrightarrow>
   parseField (Suc n) f r d v =
     Some (Inr (Some (parseUUID r (zm_ref f) (zm_unique f) (zm_refPath f) (zm_unique f))))"
  by (simp add: parseField_Suc parseField_body_uuid)

lemma parseField_unknown:
  "unknownKind f \<Longrightarrow> parseField (Suc n) f r d v = Some (Inr None)"
  by (simp add: parseField_Suc parseField_body_unknown)

lemma parseField_array:
  "zmAssert_array f \<Longrightarrow>
   parseField (Suc n) f r d v =
     (let elem = enhanceZodInstance (element f) in
      returned (parseArray (parseField n) r elem d
       (case elem of
          Absent \<Rightarrow> None
        | _ \<Rightarrow> (case checks (zdef elem) of
                  None \<Rightarrow> None
                | Some cs \<Rightarrow> extractValidationFromChecks (Some cs)))))"
  by (simp add: parseField_Suc parseField_body_array)

lemma parseField_map:
  "zmAssert_mapOrRecord f \<Longrightarrow>
   parseField (Suc n) f r d v = returned (parseMap (parseField n) r (valueType f) d)"
  by (simp add: parseField_Suc parseField_body_map)

lemma parseField_effect:
  "zmAssert_effect f \<Longrightarrow>
   parseField (Suc n) f r d v =
     (if effectType f
      then flagged (attrOrFalse (originalField f) zm_unique) (attrOrFalse (originalField f) zm_sparse)
             (parseField n (effectTarget f) r (DObject (zdef f)) v)
      else Some (Inr None))"
  by (simp add: parseField_Suc parseField_body_effect)

lemmas example_defs = z_map_def z_node_def z_string_def z_number_def z_bigint_def z_optional_def
  z_nullable_def z_default_def z_union_def z_array_def z_object_def hasStaticName_def

lemma extractLoop_first:
  "list_all (\<lambda>c. checkValidation c = None) pre \<Longrightarrow>
   extractLoop (pre @ cs) = extractLoop cs"
  by (induction pre) simp_all

lemma extractLoop_none:
  "list_all (\<lambda>c. checkValidation c = None) cs \<Longrightarrow> extractLoop cs = None"
  by (induction cs) simp_all

section \<open>The depth of the recursion\<close>

text \<open>A deeper bound changes no result: what a call returns at one depth it returns
  at every greater depth.\<close>

lemma fieldParserLeD: "fieldParserLe pf pf' \<Longrightarrow> pf x r d v = Some y \<Longrightarrow> pf' x r d v = Some y"
  by (simp add: fieldParserLe_def)

lemma objectParserLeD: "objectParserLe po po' \<Longrightarrow> po x = Some y \<Longrightarrow> po' x = Some y"
  by (simp add: objectParserLe_def)

lemma returned_Some: "returned a = Some y \<Longrightarrow> \<exists>b. a = Some b"
  by (cases a) simp_all

lemma flagged_Some: "flagged u s a = Some y \<Longrightarrow> \<exists>b. a = Some b"
  by (cases a) simp_all

lemma parseArray_mono:
  assumes "fieldParserLe pf pf'" and "parseArray pf r e d ev = Some y"
  shows "parseArray pf' r e d ev = Some y"
proof (cases "pf e True DUndefined ev")
  case None
  with assms(2) show ?thesis by (simp add: parseArray_def)
next
  case (Some a)
  with assms(1) have "pf' e True DUndefined ev = Some a" by (rule fieldParserLeD)
  with Some assms(2) show ?thesis by (simp add: parseArray_def)
qed

lemma parseMap_mono:
  assumes "fieldParserLe pf pf'" and "parseMap pf r e d = Some y"
  shows "parseMap pf' r e d = Some y"
proof (cases "pf e True DUndefined None")
  case None
  with assms(2) show ?thesis by (simp add: parseMap_def)
next
  case (Some a)
  with assms(1) have "pf' e True DUndefined None = Some a" by (rule fieldParserLeD)
  with Some assms(2) show ?thesis by (simp add: parseMap_def)
qed

lemma parseMember_mono:
  assumes "fieldParserLe pf pf'" and "objectParserLe po po'" and "parseMember pf po m = Some y"
  shows "parseMember pf' po' m = Some y"
proof (cases "zmAssert_object m")
  case True
  with assms(2,3) show ?thesis by (simp add: parseMember_def objectParserLe_def)
next
  case False
  show ?thesis
  proof (cases "pf (enhanceZodInstance m) True DUndefined None")
    case None
    with False assms(3) show ?thesis by (simp add: parseMember_def)
  next
    case (Some a)
    with assms(1) have "pf' (enhanceZodInstance m) True DUndefined None = Some a"
      by (rule fieldParserLeD)
    with Some False assms(3) show ?thesis by (simp add: parseMember_def)
  qed
qed

lemma parseShape_mono:
  assumes "fieldParserLe pf pf'" and "objectParserLe po po'"
  shows "parseShape pf po sh = Some y \<Longrightarrow> parseShape pf' po' sh = Some y"
proof (induction sh arbitrary: y)
  case Nil
  then show ?case by simp
next
  case (Cons a sh)
  obtain k m where a: "a = (k, m)" by (cases a)
  from Cons.prems a obtain b where b: "parseMember pf po m = Some b"
    by (cases "parseMember pf po m") simp_all
  then have b': "parseMember pf' po' m = Some b" by (rule parseMember_mono [OF assms])
  show ?case
  proof (cases b)
    case (Inl e)
    with Cons.prems a b b' show ?thesis by simp
  next
    case (Inr v)
    with Cons.prems a b obtain c where c: "parseShape pf po sh = Some c"
      by (cases "parseShape pf po sh") simp_all
    then have "parseShape pf' po' sh = Some c" by (rule Cons.IH)
    with Cons.prems a b b' c Inr show ?thesis by simp
  qed
qed

lemma parseObject_body_mono:
  assumes "fieldParserLe pf pf'" and "objectParserLe po po'"
    and "parseObject_body pf po obj = Some y"
  shows "parseObject_body pf' po' obj = Some y"
proof -
  from assms(3) obtain c where c: "parseShape pf po (shape obj) = Some c"
    by (cases "parseShape pf po (shape obj)") (simp_all add: parseObject_body_def)
  then have "parseShape pf' po' (shape obj) = Some c" by (rule parseShape_mono [OF assms(1,2)])
  with c assms(3) show ?thesis by (simp add: parseObject_body_def)
qed

lemma returned_mono: "(\<And>b. a = Some b \<Longrightarrow> a' = Some b) \<Longrightarrow> returned a = Some y \<Longrightarrow> returned a' = Some y"
  by (cases a) simp_all

lemma flagged_mono: "(\<And>b. a = Some b \<Longrightarrow> a' = Some b) \<Longrightarrow> flagged u s a = Some y \<Longrightarrow> flagged u s a' = Some y"
  by (cases a) simp_all

lemma parseField_body_mono:
  assumes le: "fieldParserLe pf pf'" and ole: "objectParserLe po po'"
    and res: "parseField_body pf po f r d v = Some y"
  shows "parseField_body pf' po' f r d v = Some y"
proof -
  note pfD = fieldParserLeD [OF le]
  note poD = objectParserLeD [OF ole]
  show ?thesis
  proof (cases f rule: kind_cases)
    case 1
    with res show ?thesis by (simp add: parseField_body_objectId)
  next
    case 2
    with res show ?thesis by (simp add: parseField_body_uuid)
  next
    case 3
    with res show ?thesis
      by (auto simp add: parseField_body_object intro: returned_mono poD)
  next
    case 4
    with res show ?thesis by (simp add: parseField_body_number)
  next
    case 5
    with res show ?thesis by (simp add: parseField_body_string)
  next
    case 6
    with res show ?thesis by (simp add: parseField_body_enum)
  next
    case 7
    with res show ?thesis by (simp add: parseField_body_boolean)
  next
    case 8
    with res show ?thesis by (simp add: parseField_body_date)
  next
    case 9
    with res show ?thesis
      by (auto simp add: parseField_body_array Let_def
          intro: returned_mono parseArray_mono [OF le])
  next
    case 10
    with res show ?thesis by (auto simp add: parseField_body_default intro: pfD)
  next
    case 11
    with res show ?thesis by (auto simp add: parseField_body_optional intro: pfD)
  next
    case 12
    with res show ?thesis by (auto simp add: parseField_body_nullable intro: pfD)
  next
    case 13
    with res show ?thesis by (auto simp add: parseField_body_union intro: pfD)
  next
    case 14
    with res show ?thesis by (simp add: parseField_body_any)
  next
    case 15
    with res show ?thesis
      by (auto simp add: parseField_body_map intro: returned_mono parseMap_mono [OF le])
  next
    case 16
    with res show ?thesis
      by (auto simp add: parseField_body_pipe split: if_splits intro: pfD)
  next
    case 17
    with res show ?thesis
      by (auto simp add: parseField_body_effect split: if_splits intro: flagged_mono pfD)
  next
    case 18
    with res show ?thesis by (simp add: parseField_body_unknown)
  qed
qed

lemma deeper_step:
  "fieldParserLe (parseField n) (parseField (Suc n))
   \<and> objectParserLe (parseObject n) (parseObject (Suc n))"
proof (induction n)
  case 0
  show ?case by (simp add: fieldParserLe_def objectParserLe_def)
next
  case (Suc n)
  then have le: "fieldParserLe (parseField n) (parseField (Suc n))"
    and ole: "objectParserLe (parseObject n) (parseObject (Suc n))" by simp_all
  have "fieldParserLe (parseField (Suc n)) (parseField (Suc (Suc n)))"
    unfolding fieldParserLe_def
    by (auto simp add: parseField_Suc [of n] parseField_Suc [of "Suc n"]
        intro: parseField_body_mono [OF le ole])
  moreover have "objectParserLe (parseObject (Suc n)) (parseObject (Suc (Suc n)))"
    unfolding objectParserLe_def
    by (auto simp add: parseObject_Suc [of n] parseObject_Suc [of "Suc n"]
        intro: parseObject_body_mono [OF le ole])
  ultimately show ?case by simp
qed

lemma parseField_deeper:
  "parseField n f r d v = Some y \<Longrightarrow> parseField (n + k) f r d v = Some y"
proof (induction k)
  case 0
  then show ?case by simp
next
  case (Suc k)
  then show ?case using deeper_step [of "n + k"] by (auto dest: fieldParserLeD)
qed

lemma parseObject_deeper:
  "parseObject n f = Some y \<Longrightarrow> parseObject (n + k) f = Some y"
proof (induction k)
  case 0
  then show ?case by simp
next
  case (Suc k)
  then show ?case using deeper_step [of "n + k"] by (auto dest: objectParserLeD)
qed

text \<open>The result of a call does not depend on the depth that is allowed, once it is
  enough.\<close>

lemma parseField_result_unique:
  assumes "parseField n f r d v = Some y" and "parseField m f r d v = Some y'"
  shows "y = y'"
proof -
  from assms(1) have "parseField (n + m) f r d v = Some y" by (rule parseField_deeper)
  moreover from assms(2) have "parseField (m + n) f r d v = Some y'" by (rule parseField_deeper)
  ultimately show ?thesis by (simp add: add.commute)
qed

lemma parseObject_result_unique:
  assumes "parseObject n f = Some y" and "parseObject m f = Some y'"
  shows "y = y'"
proof -
  from assms(1) have "parseObject (n + m) f = Some y" by (rule parseObject_deeper)
  moreover from assms(2) have "parseObject (m + n) f = Some y'" by (rule parseObject_deeper)
  ultimately show ?thesis by (simp add: add.commute)
qed

section \<open>Contexts and wrapper chains\<close>

lemma contextKind_required:
  "contextKind x \<Longrightarrow> requiredOf (parseField (Suc n) x r d v) = Some r"
  unfolding contextKind_def
  by (elim disjE)
     (simp_all add: parseField_number parseField_string parseField_enum parseField_boolean
        parseField_date parseField_any parseNumber_def parseString_def parseEnum_def
        parseBoolean_def parseDate_def parseMixed_def requiredOf_def)

lemma contextKind_default:
  "contextKind x \<Longrightarrow> defaultOf (parseField (Suc n) x r d v) = Some d"
  unfolding contextKind_def
  by (elim disjE)
     (simp_all add: parseField_number parseField_string parseField_enum parseField_boolean
        parseField_date parseField_any parseNumber_def parseString_def parseEnum_def
        parseBoolean_def parseDate_def parseMixed_def defaultOf_def)

lemma identifier_required:
  "zmAssert_objectId x \<or> zmAssert_uuid x \<Longrightarrow> requiredOf (parseField (Suc n) x r d v) = Some r"
  by (elim disjE)
     (simp_all add: parseField_objectId parseField_uuid parseObjectId_def parseUUID_def
        requiredOf_def)

lemma parseField_wrapper:
  "isWrapper w f \<Longrightarrow>
   parseField (Suc n) f r d v =
     (case chainContext [w] f (r, d) of (r', d') \<Rightarrow> parseField n (innerType (zdef f)) r' d' None)"
  by (cases w) (simp_all add: parseField_optional parseField_default parseField_nullable)

lemma chainContext_Cons:
  "chainContext (w # ws) f c = chainContext ws (innerType (zdef f)) (chainContext [w] f c)"
  by (cases w; cases c) simp_all

lemma parseField_wraps:
  "wraps (w # ws) f x \<Longrightarrow>
   parseField (Suc (length ws) + n) f r d v =
     (case chainContext (w # ws) f (r, d) of (r', d') \<Rightarrow> parseField n x r' d' None)"
proof (induction ws arbitrary: w f r d v)
  case Nil
  then show ?case using parseField_wrapper [of w f n r d v] by simp
next
  case (Cons w' ws)
  from Cons.prems have w: "isWrapper w f" and ws: "wraps (w' # ws) (innerType (zdef f)) x"
    by simp_all
  obtain r1 d1 where c1: "chainContext [w] f (r, d) = (r1, d1)" by (cases "chainContext [w] f (r, d)")
  have "parseField (Suc (length (w' # ws)) + n) f r d v
          = parseField (Suc (length ws) + n) (innerType (zdef f)) r1 d1 None"
    using parseField_wrapper [OF w, of "Suc (length ws) + n" r d v] c1 by simp
  also have "\<dots> = (case chainContext (w' # ws) (innerType (zdef f)) (r1, d1) of
                      (r', d') \<Rightarrow> parseField n x r' d' None)"
    by (rule Cons.IH [OF ws])
  also have "chainContext (w' # ws) (innerType (zdef f)) (r1, d1) = chainContext (w # w' # ws) f (r, d)"
    using c1 chainContext_Cons [of w "w' # ws" f "(r, d)"] by simp
  finally show ?case .
qed

lemma chainContext_keeps_False:
  "fst (chainContext ws f (False, d)) = False"
proof (induction ws arbitrary: f d)
  case Nil
  then show ?case by simp
next
  case (Cons w ws)
  then show ?case by (cases w) simp_all
qed

lemma chainContext_optional:
  "WOptional \<in> set ws \<Longrightarrow> fst (chainContext ws f c) = False"
proof (induction ws arbitrary: f c)
  case Nil
  then show ?case by simp
next
  case (Cons w ws)
  obtain r d where c: "c = (r, d)" by (cases c)
  show ?case
  proof (cases w)
    case WOptional
    then show ?thesis using c by (simp add: chainContext_keeps_False)
  next
    case WDefault
    then show ?thesis using c Cons by simp
  next
    case WNullable
    then show ?thesis using c by (simp add: chainContext_keeps_False)
  qed
qed

lemma requiredOf_simps [simp]:
  "requiredOf None = None"
  "requiredOf (Some (Inl e)) = None"
  "requiredOf (Some (Inr None)) = None"
  "requiredOf (Some (Inr (Some (Descriptor ty d r u s mn mx mnl mxl en v rf rp ofv)))) = Some r"
  "requiredOf (Some (Inr (Some (Schema es)))) = None"
  "requiredOf (Some (Inr (Some (Flag b)))) = None"
  by (simp_all add: requiredOf_def)

lemma defaultOf_simps [simp]:
  "defaultOf None = None"
  "defaultOf (Some (Inl e)) = None"
  "defaultOf (Some (Inr None)) = None"
  "defaultOf (Some (Inr (Some (Descriptor ty d r u s mn mx mnl mxl en v rf rp ofv)))) = Some d"
  "defaultOf (Some (Inr (Some (Schema es)))) = None"
  "defaultOf (Some (Inr (Some (Flag b)))) = None"
  by (simp_all add: defaultOf_def)

lemma requiredOf_parseArray:
  "requiredOf (returned (parseArray pf r e d ev)) = None
     \<or> requiredOf (returned (parseArray pf r e d ev)) = Some r"
proof (cases "pf e True DUndefined ev")
  case None
  then show ?thesis by (simp add: parseArray_def)
next
  case (Some a)
  then show ?thesis
  proof (cases a)
    case (Inl e)
    with Some show ?thesis by (simp add: parseArray_def)
  next
    case (Inr b)
    with Some show ?thesis by (cases b) (simp_all add: parseArray_def)
  qed
qed

lemma requiredOf_parseMap:
  "requiredOf (returned (parseMap pf r e d)) = None
     \<or> requiredOf (returned (parseMap pf r e d)) = Some r"
proof (cases "pf e True DUndefined None")
  case None
  then show ?thesis by (simp add: parseMap_def)
next
  case (Some a)
  then show ?thesis
  proof (cases a)
    case (Inl e)
    with Some show ?thesis by (simp add: parseMap_def)
  next
    case (Inr b)
    with Some show ?thesis by (cases b) (simp_all add: parseMap_def)
  qed
qed

lemma array_required:
  "zmAssert_array x \<Longrightarrow> requiredOf (parseField (Suc n) x r d v) = None
     \<or> requiredOf (parseField (Suc n) x r d v) = Some r"
  by (simp only: parseField_array Let_def requiredOf_parseArray)

lemma map_required:
  "zmAssert_mapOrRecord x \<Longrightarrow> requiredOf (parseField (Suc n) x r d v) = None
     \<or> requiredOf (parseField (Suc n) x r d v) = Some r"
  by (simp only: parseField_map requiredOf_parseMap)

section \<open>Members without a branch\<close>

lemma unknownKind_not_object: "unknownKind m \<Longrightarrow> \<not> zmAssert_object m"
  by (simp add: unknownKind_def)

lemma node_case_const [simp]:
  "(case e of Absent \<Rightarrow> a
    | Node cl t en rf rp u s ty d el vt sh eo mnv mxv mnl mxl \<Rightarrow> b) = (if e = Absent then a else b)"
  by (cases e) simp_all

lemma unknownKind_enhance [simp]: "unknownKind (enhanceZodInstance m) = unknownKind m"
  by (simp add: unknownKind_def)

lemma parseMember_unknown:
  "unknownKind m \<Longrightarrow> m \<noteq> Absent \<Longrightarrow>
   parseMember (parseField (Suc n)) po m = Some (Inl (UnsupportedFieldType (ctor m)))"
  by (simp add: parseMember_def Let_def unknownKind_not_object parseField_unknown)

text \<open>Marking a node changes nothing in its translation.\<close>

lemma parseField_enhance [simp]:
  "parseField n (enhanceZodInstance f) r d v = parseField n f r d v"
  by (cases n) (simp_all add: parseField_Suc parseField_body_def)

lemma elementValidationOf_enhance [simp]:
  "elementValidationOf (enhanceZodInstance e) = elementValidationOf e"
  by (simp add: elementValidationOf_def)

lemma parseField_array_element:
  "zmAssert_array a \<Longrightarrow>
   parseField (Suc n) a r d v =
     returned (parseArray (parseField n) r (enhanceZodInstance (element a)) d
       (elementValidationOf (element a)))"
  by (simp add: parseField_array Let_def elementValidationOf_def)

lemma parseMember_unknown_no_value:
  "unknownKind m \<Longrightarrow> parseMember (parseField n) po m \<noteq> Some (Inr out)"
  by (cases n)
     (simp_all add: parseMember_def Let_def unknownKind_not_object parseField_unknown)

lemma parseShape_append:
  "parseShape pf po (pre @ rest) =
     (case parseShape pf po pre of
        None \<Rightarrow> None
      | Some (Inl e) \<Rightarrow> Some (Inl e)
      | Some (Inr out) \<Rightarrow>
          (case parseShape pf po rest of
             None \<Rightarrow> None
           | Some (Inl e) \<Rightarrow> Some (Inl e)
           | Some (Inr out') \<Rightarrow> Some (Inr (out @ out'))))"
proof (induction pre)
  case Nil
  show ?case by (simp split: option.split sum.split)
next
  case (Cons a pre)
  obtain k m where a: "a = (k, m)" by (cases a)
  show ?case using Cons a by (simp split: option.split sum.split)
qed

lemma parseShape_member_no_value:
  assumes "\<And>v. parseMember pf po m \<noteq> Some (Inr v)"
  shows "parseShape pf po (pre @ (key, m) # post) \<noteq> Some (Inr out)"
  using assms
  by (simp add: parseShape_append split: option.split sum.split)

lemmas eval_defs = parseField_Suc parseField_body_def parseObject_Suc parseObject_body_def
  parseMember_def parseArray_def parseMap_def zodSchemaRaw_def zmAssert_defs example_defs
  parseString_def parseNumber_def parseEnum_def parseBoolean_def parseDate_def
  parseObjectId_def parseUUID_def parseMixed_def orFalse_def truthyString_def
  extractValidationFromChecks_def checkValidation_def unknownKind_def contextKind_def
  attrOrFalse_def Let_def

section \<open>The effect branch\<close>

lemma defaultOf_flagged [simp]: "defaultOf (flagged u s res) = defaultOf res"
proof (cases res)
  case None
  then show ?thesis by simp
next
  case (Some a)
  then show ?thesis
  proof (cases a)
    case (Inl e)
    with Some show ?thesis by simp
  next
    case (Inr b)
    show ?thesis
    proof (cases b)
      case None
      with Some Inr show ?thesis by simp
    next
      case (Some fld)
      with \<open>res = Some a\<close> Inr show ?thesis by (cases fld) simp_all
    qed
  qed
qed

lemma contextKind_not_Absent: "contextKind x \<Longrightarrow> x \<noteq> Absent"
  by (auto simp add: contextKind_def zmAssert_defs hasStaticName_def)

lemma effect_enhance [simp]:
  "originalField (enhanceZodInstance f) = originalField f"
  "refinedPrimitiveType (enhanceZodInstance f) = refinedPrimitiveType f"
  "effectType (enhanceZodInstance f) = effectType f"
  by (simp_all add: originalField_def refinedPrimitiveType_def effectType_def)

lemma effect_self_call_never_returns:
  assumes "zmAssert_effect f" and "refinedPrimitiveType f" and "originalField f = Absent"
  shows "parseField n f r d v = None"
  using assms
proof (induction n arbitrary: f d)
  case 0
  show ?case by simp
next
  case (Suc n)
  have t: "effectTarget f = enhanceZodInstance f"
    using Suc.prems by (simp add: effectTarget_def)
  have e: "zmAssert_effect (enhanceZodInstance f)" using Suc.prems(1) by simp
  have p: "refinedPrimitiveType (enhanceZodInstance f)"
    using Suc.prems(2) by simp
  have o: "originalField (enhanceZodInstance f) = Absent"
    using Suc.prems(3) by simp
  have "parseField n (enhanceZodInstance f) r (DObject (zdef f)) v = None"
    by (rule Suc.IH [OF e p o])
  then show ?case
    using Suc.prems by (simp add: parseField_effect effectType_def t)
qed

section \<open>Marking and refining\<close>

lemma setters_hasStaticName [simp]:
  "hasStaticName (set_zm_unique a f) k = hasStaticName f k"
  "hasStaticName (set_zm_sparse a f) k = hasStaticName f k"
  "hasStaticName (set_checks cs f) k = hasStaticName f k"
  by (cases f; cases "zdef f"; simp add: hasStaticName_def)+

lemma setters_Absent_iff [simp]:
  "(set_zm_unique a f = Absent) = (f = Absent)"
  "(set_zm_sparse a f = Absent) = (f = Absent)"
  "(set_checks cs f = Absent) = (f = Absent)"
  by (cases f; cases "zdef f"; simp)+


lemma set_zm_unique_sel [simp]:
  "f \<noteq> Absent \<Longrightarrow> zm_unique (set_zm_unique a f) = a"
  "zm_sparse (set_zm_unique a f) = zm_sparse f"
  "zdef (set_zm_unique a f) = zdef f"
  "f \<noteq> Absent \<Longrightarrow> zm_enhanced (set_zm_unique a f) = zm_enhanced f"
  by (cases f; simp)+

lemma set_zm_sparse_sel [simp]:
  "f \<noteq> Absent \<Longrightarrow> zm_sparse (set_zm_sparse a f) = a"
  "zm_unique (set_zm_sparse a f) = zm_unique f"
  "zdef (set_zm_sparse a f) = zdef f"
  "f \<noteq> Absent \<Longrightarrow> zm_enhanced (set_zm_sparse a f) = zm_enhanced f"
  by (cases f; simp)+

lemma set_checks_sel [simp]:
  "f \<noteq> Absent \<Longrightarrow> checks (zdef (set_checks cs f)) = cs"
  "zm_unique (set_checks cs f) = zm_unique f"
  "zm_sparse (set_checks cs f) = zm_sparse f"
  by (cases f; cases "zdef f"; simp)+

lemma enhance_marks [simp]: "f \<noteq> Absent \<Longrightarrow> zm_enhanced (enhanceZodInstance f)"
  by (cases f) simp_all

lemma storeInLast_snoc [simp]: "storeInLast v (cs @ [c]) = cs @ [storeValidation v c]"
  by (induction v cs rule: storeInLast.induct) simp_all



lemma uniqueOf_simp [simp]:
  "uniqueOf (Some (Inr (Some (Descriptor ty d r u s mn mx mnl mxl en v rf rp ofv)))) = Some u"
  by (simp add: uniqueOf_def)

lemma sparseOf_simp [simp]:
  "sparseOf (Some (Inr (Some (Descriptor ty d r u s mn mx mnl mxl en v rf rp ofv)))) = Some s"
  by (simp add: sparseOf_def)

lemma validateOf_simp [simp]:
  "validateOf (Some (Inr (Some (Descriptor ty d r u s mn mx mnl mxl en v rf rp ofv)))) = Some v"
  by (simp add: validateOf_def)


section \<open>The claims\<close>

text \<open>
  C1 (as amended). Under a chain of Optional, Default and Nullable wrappers that has an
  Optional in it, a node is translated with \<^verbatim>\<open>required = false\<close> and no inherited
  validator, at every depth of the chain. So a node whose branch writes the
  \<^verbatim>\<open>required\<close> it is called with gets a descriptor with \<^verbatim>\<open>required = false\<close>: the
  string, number, date, boolean, enum, any and identifier kinds always, an array or a
  map whenever it gets a descriptor at all.
\<close>

theorem optional_chain_not_required:
  assumes "wraps ws f x" and "WOptional \<in> set ws"
  shows "(\<exists>d'. \<forall>n. parseField (length ws + n) f r d v = parseField n x False d' None)
       \<and> ((contextKind x \<or> zmAssert_objectId x \<or> zmAssert_uuid x)
            \<longrightarrow> requiredOf (parseField (length ws + Suc n) f r d v) = Some False)
       \<and> ((zmAssert_array x \<or> zmAssert_mapOrRecord x)
            \<longrightarrow> requiredOf (parseField (length ws + Suc n) f r d v) \<noteq> Some True)"
proof -
  from assms(2) obtain w ws' where ws: "ws = w # ws'" by (cases ws) auto
  obtain r' d' where c: "chainContext ws f (r, d) = (r', d')" by (cases "chainContext ws f (r, d)")
  from chainContext_optional [OF assms(2), of f "(r, d)"] c have r': "r' = False" by simp
  have eq: "parseField (length ws + k) f r d v = parseField k x False d' None" for k
    using parseField_wraps [of w ws' f x k r d v] assms(1) ws c r' by simp
  have a: "\<exists>d'. \<forall>n. parseField (length ws + n) f r d v = parseField n x False d' None"
    using eq by blast
  have b: "requiredOf (parseField (length ws + Suc n) f r d v) = Some False"
    if "contextKind x \<or> zmAssert_objectId x \<or> zmAssert_uuid x"
    using that eq [of "Suc n"] contextKind_required [of x n False d' None]
      identifier_required [of x n False d' None] by auto
  have c: "requiredOf (parseField (length ws + Suc n) f r d v) \<noteq> Some True"
    if "zmAssert_array x \<or> zmAssert_mapOrRecord x"
    using that eq [of "Suc n"] array_required [of x n False d' None]
      map_required [of x n False d' None] by auto
  from a b c show ?thesis by blast
qed

theorem optional_chain_not_required_witness:
  "wraps [WOptional, WDefault, WNullable]
     (z_optional (z_default (z_nullable z_string) (JStr ''x''))) z_string
   \<and> WOptional \<in> set [WOptional, WDefault, WNullable]
   \<and> contextKind z_string
   \<and> requiredOf (parseField (Suc (Suc (Suc (Suc 0))))
         (z_optional (z_default (z_nullable z_string) (JStr ''x''))) True DUndefined None)
       = Some False
   \<and> wraps [WOptional] (z_optional (z_array z_string)) (z_array z_string)
   \<and> zmAssert_array (z_array z_string)
   \<and> requiredOf (parseField (Suc (Suc 0)) (z_optional (z_array z_string)) True DUndefined None)
       \<noteq> Some True"
proof -
  let ?f = "z_optional (z_default (z_nullable z_string) (JStr ''x''))"
  have a': "wraps [WOptional] (z_optional (z_array z_string)) (z_array z_string)"
    by (simp add: zmAssert_defs example_defs)
  have b': "WOptional \<in> set [WOptional]" by simp
  have c': "zmAssert_array (z_array z_string)" by (simp add: zmAssert_defs example_defs)
  from optional_chain_not_required [OF a' b', of True DUndefined None 0] c'
  have "requiredOf (parseField (length [WOptional] + Suc 0) (z_optional (z_array z_string))
          True DUndefined None) \<noteq> Some True"
    by blast
  then have d': "requiredOf (parseField (Suc (Suc 0)) (z_optional (z_array z_string))
          True DUndefined None) \<noteq> Some True"
    by simp
  have a: "wraps [WOptional, WDefault, WNullable] ?f z_string"
    by (simp add: zmAssert_defs example_defs)
  have b: "WOptional \<in> set [WOptional, WDefault, WNullable]" by simp
  have c: "contextKind z_string" by (simp add: contextKind_def zmAssert_defs example_defs)
  from optional_chain_not_required [OF a b, of True DUndefined None 0] c
  have "requiredOf (parseField (length [WOptional, WDefault, WNullable] + Suc 0) ?f
          True DUndefined None) = Some False"
    by blast
  then have "requiredOf (parseField (Suc (Suc (Suc (Suc 0)))) ?f True DUndefined None) = Some False"
    by simp
  with a b c a' c' d' show ?thesis by blast
qed

text \<open>C1 as stated fails with a Union between the Optional and the node: the union
  branch calls \<^verbatim>\<open>parseField\<close> with one argument, so the node is translated as
  required. It also fails for a node that gets no descriptor: an object under an
  Optional translates to the nested object, which has no \<^verbatim>\<open>required\<close>.\<close>

theorem optional_over_union_counterexample:
  "zmAssert_optional (z_optional (z_union [z_string, z_number]))
   \<and> innerType (zdef (z_optional (z_union [z_string, z_number]))) = z_union [z_string, z_number]
   \<and> requiredOf (parseField (Suc (Suc (Suc 0))) (z_optional (z_union [z_string, z_number]))
         True DUndefined None) = Some True
   \<and> parseField (Suc (Suc (Suc (Suc 0)))) (z_optional (z_object [(''a'', z_string)]))
         True DUndefined None
       = Some (Inr (Some (Schema [(''a'', Descriptor TString DUndefined True (Some False)
           (Some False) None None None None None None None None None)])))"
  by (simp add: parseField_Suc parseField_body_def parseObject_Suc parseObject_body_def
      parseMember_def zmAssert_defs example_defs parseString_def orFalse_def
      extractValidationFromChecks_def)

text \<open>
  C2 (as amended). A Default wrapper has its inner node translated with the
  \<^verbatim>\<open>required\<close> the wrapper was called with and a provider of exactly its default value.
  When the inner node is of the string, number, date, boolean, enum or any kind, that is
  what the descriptor holds. When the inner node is a Nullable wrapper around such a
  node, the default is kept and \<^verbatim>\<open>required\<close> is false; when it is an Optional wrapper
  around such a node, the default is cleared and \<^verbatim>\<open>required\<close> is false.
\<close>

theorem default_wrapper_context:
  assumes "zmAssert_def f"
  shows "parseField (Suc n) f r d v =
           parseField n (innerType (zdef f)) r (DProvider (defaultValue (zdef f))) None
       \<and> (contextKind (innerType (zdef f)) \<longrightarrow>
            defaultOf (parseField (Suc (Suc n)) f r d v) = Some (DProvider (defaultValue (zdef f)))
            \<and> requiredOf (parseField (Suc (Suc n)) f r d v) = Some r)
       \<and> ((zmAssert_nullable (innerType (zdef f))
             \<and> contextKind (innerType (zdef (innerType (zdef f))))) \<longrightarrow>
            defaultOf (parseField (Suc (Suc (Suc n))) f r d v)
              = Some (DProvider (defaultValue (zdef f)))
            \<and> requiredOf (parseField (Suc (Suc (Suc n))) f r d v) = Some False)
       \<and> ((zmAssert_optional (innerType (zdef f))
             \<and> contextKind (innerType (zdef (innerType (zdef f))))) \<longrightarrow>
            defaultOf (parseField (Suc (Suc (Suc n))) f r d v) = Some DUndefined
            \<and> requiredOf (parseField (Suc (Suc (Suc n))) f r d v) = Some False)"
  using assms
  by (simp add: parseField_default parseField_nullable parseField_optional
      contextKind_default contextKind_required)

theorem default_wrapper_context_witness:
  "zmAssert_def (z_default z_number (JNum 7))
   \<and> contextKind (innerType (zdef (z_default z_number (JNum 7))))
   \<and> defaultOf (parseField (Suc (Suc 0)) (z_default z_number (JNum 7)) True DUndefined None)
       = Some (DProvider (JNum 7))
   \<and> requiredOf (parseField (Suc (Suc 0)) (z_default z_number (JNum 7)) True DUndefined None)
       = Some True
   \<and> zmAssert_nullable (innerType (zdef (z_default (z_nullable z_number) (JNum 7))))
   \<and> defaultOf (parseField (Suc (Suc (Suc 0))) (z_default (z_nullable z_number) (JNum 7))
         True DUndefined None) = Some (DProvider (JNum 7))
   \<and> requiredOf (parseField (Suc (Suc (Suc 0))) (z_default (z_nullable z_number) (JNum 7))
         True DUndefined None) = Some False
   \<and> zmAssert_optional (innerType (zdef (z_default (z_optional z_number) (JNum 7))))
   \<and> defaultOf (parseField (Suc (Suc (Suc 0))) (z_default (z_optional z_number) (JNum 7))
         True DUndefined None) = Some DUndefined
   \<and> requiredOf (parseField (Suc (Suc (Suc 0))) (z_default (z_optional z_number) (JNum 7))
         True DUndefined None) = Some False"
proof -
  have a2: "zmAssert_def (z_default (z_nullable z_number) (JNum 7))"
    by (simp add: zmAssert_defs example_defs)
  have b2: "zmAssert_nullable (innerType (zdef (z_default (z_nullable z_number) (JNum 7))))"
    by (simp add: zmAssert_defs example_defs)
  have c2: "contextKind (innerType (zdef (innerType (zdef (z_default (z_nullable z_number) (JNum 7))))))"
    by (simp add: contextKind_def zmAssert_defs example_defs)
  have d2: "defaultValue (zdef (z_default (z_nullable z_number) (JNum 7))) = JNum 7"
    by (simp add: example_defs)
  from default_wrapper_context [OF a2, of 0 True DUndefined None] b2 c2 d2
  have e2: "defaultOf (parseField (Suc (Suc (Suc 0))) (z_default (z_nullable z_number) (JNum 7))
         True DUndefined None) = Some (DProvider (JNum 7))
   \<and> requiredOf (parseField (Suc (Suc (Suc 0))) (z_default (z_nullable z_number) (JNum 7))
         True DUndefined None) = Some False"
    by simp
  have a3: "zmAssert_def (z_default (z_optional z_number) (JNum 7))"
    by (simp add: zmAssert_defs example_defs)
  have b3: "zmAssert_optional (innerType (zdef (z_default (z_optional z_number) (JNum 7))))"
    by (simp add: zmAssert_defs example_defs)
  have c3: "contextKind (innerType (zdef (innerType (zdef (z_default (z_optional z_number) (JNum 7))))))"
    by (simp add: contextKind_def zmAssert_defs example_defs)
  from default_wrapper_context [OF a3, of 0 True DUndefined None] b3 c3
  have e3: "defaultOf (parseField (Suc (Suc (Suc 0))) (z_default (z_optional z_number) (JNum 7))
         True DUndefined None) = Some DUndefined
   \<and> requiredOf (parseField (Suc (Suc (Suc 0))) (z_default (z_optional z_number) (JNum 7))
         True DUndefined None) = Some False"
    by simp
  have a: "zmAssert_def (z_default z_number (JNum 7))"
    by (simp add: zmAssert_defs example_defs)
  have b: "contextKind (innerType (zdef (z_default z_number (JNum 7))))"
    by (simp add: contextKind_def zmAssert_defs example_defs)
  have c: "defaultValue (zdef (z_default z_number (JNum 7))) = JNum 7"
    by (simp add: example_defs)
  from default_wrapper_context [OF a, of 0 True DUndefined None] b c
  have "defaultOf (parseField (Suc (Suc 0)) (z_default z_number (JNum 7)) True DUndefined None)
       = Some (DProvider (JNum 7))
     \<and> requiredOf (parseField (Suc (Suc 0)) (z_default z_number (JNum 7)) True DUndefined None)
       = Some True"
    by simp
  with a b b2 e2 b3 e3 show ?thesis by blast
qed

text \<open>C2 as stated fails when the inner node is an Optional wrapper: the optional
  branch passes \<^verbatim>\<open>false, undefined\<close>, so neither the default nor the inherited
  \<^verbatim>\<open>required = true\<close> reaches the descriptor.\<close>

theorem default_over_optional_counterexample:
  "zmAssert_def (z_default (z_optional z_string) (JStr ''x''))
   \<and> defaultValue (zdef (z_default (z_optional z_string) (JStr ''x''))) = JStr ''x''
   \<and> defaultOf (parseField (Suc (Suc (Suc 0))) (z_default (z_optional z_string) (JStr ''x''))
         True DUndefined None) = Some DUndefined
   \<and> requiredOf (parseField (Suc (Suc (Suc 0))) (z_default (z_optional z_string) (JStr ''x''))
         True DUndefined None) = Some False"
  by (simp add: parseField_Suc parseField_body_def zmAssert_defs example_defs parseString_def)

text \<open>
  C3 (as amended). The extraction walks the checks from the first to the last and
  returns at the first check that yields a validator: when no check before \<open>c\<close> yields
  one and \<open>c\<close> yields \<open>v\<close>, the result is \<open>v\<close> whatever comes after \<open>c\<close>; and the
  descriptor of a string, number or date node with these checks carries \<open>v\<close>, whatever
  validator the call inherited.
\<close>

theorem extraction_first_match_wins:
  assumes "list_all (\<lambda>c. checkValidation c = None) pre" and "checkValidation c = Some v"
  shows "extractValidationFromChecks (Some (pre @ c # post)) = Some v
       \<and> ((primitiveKind f \<and> checks (zdef f) = Some (pre @ c # post))
            \<longrightarrow> validateOf (parseField (Suc n) f r d w) = Some (Some v))"
proof -
  have ex: "extractValidationFromChecks (Some (pre @ c # post)) = Some v"
    using assms by (simp add: extractValidationFromChecks_def extractLoop_first)
  have "validateOf (parseField (Suc n) f r d w) = Some (Some v)"
    if "primitiveKind f" and "checks (zdef f) = Some (pre @ c # post)"
  proof -
    from that(1) consider "zmAssert_number f" | "zmAssert_string f" | "zmAssert_date f"
      by (auto simp add: primitiveKind_def)
    then show ?thesis
    proof cases
      case 1
      then show ?thesis using ex that(2)
        by (simp add: parseField_number parseNumber_def validateOf_def)
    next
      case 2
      then show ?thesis using ex that(2)
        by (simp add: parseField_string parseString_def validateOf_def)
    next
      case 3
      then show ?thesis using ex that(2)
        by (simp add: parseField_date parseDate_def validateOf_def)
    qed
  qed
  with ex show ?thesis by blast
qed

theorem extraction_first_match_wins_witness:
  "extractValidationFromChecks
     (Some ([Check None None] @ recordCheck (Func ''p1'') ''m1'' # [recordCheck (Func ''p2'') ''m2'']))
     = Some (EffectValidator (Func ''p1'') (Some ''m1''))
   \<and> validateOf (parseField (Suc 0)
        (set_checks (Some ([Check None None] @ recordCheck (Func ''p1'') ''m1''
                       # [recordCheck (Func ''p2'') ''m2''])) z_string)
        True DUndefined None)
     = Some (Some (EffectValidator (Func ''p1'') (Some ''m1'')))"
proof -
  have a: "list_all (\<lambda>c. checkValidation c = None) [Check None None]"
    by (simp add: checkValidation_def)
  have b: "checkValidation (recordCheck (Func ''p1'') ''m1'')
             = Some (EffectValidator (Func ''p1'') (Some ''m1''))"
    by (simp add: checkValidation_def recordCheck_def)
  have c: "primitiveKind (set_checks (Some ([Check None None] @ recordCheck (Func ''p1'') ''m1''
                       # [recordCheck (Func ''p2'') ''m2''])) z_string)"
    by (simp add: primitiveKind_def zmAssert_defs example_defs)
  have d: "checks (zdef (set_checks (Some ([Check None None] @ recordCheck (Func ''p1'') ''m1''
                       # [recordCheck (Func ''p2'') ''m2''])) z_string))
           = Some ([Check None None] @ recordCheck (Func ''p1'') ''m1''
                       # [recordCheck (Func ''p2'') ''m2''])"
    by (simp add: example_defs)
  from extraction_first_match_wins [OF a b, of "[recordCheck (Func ''p2'') ''m2'']"
      "set_checks (Some ([Check None None] @ recordCheck (Func ''p1'') ''m1''
                       # [recordCheck (Func ''p2'') ''m2''])) z_string" "0" True DUndefined None]
    c d
  show ?thesis by blast
qed

text \<open>C3 as stated fails: of two checks that each carry a record, the first is
  returned, not the one added last.\<close>

theorem extraction_last_match_counterexample:
  "extractValidationFromChecks (Some [recordCheck (Func ''p1'') ''m1'', recordCheck (Func ''p2'') ''m2''])
     = Some (EffectValidator (Func ''p1'') (Some ''m1''))
   \<and> extractValidationFromChecks (Some [recordCheck (Func ''p1'') ''m1'', recordCheck (Func ''p2'') ''m2''])
     \<noteq> Some (EffectValidator (Func ''p2'') (Some ''m2''))
   \<and> validateOf (parseField (Suc 0)
        (set_checks (Some [recordCheck (Func ''p1'') ''m1'', recordCheck (Func ''p2'') ''m2'']) z_string)
        True DUndefined None)
     = Some (Some (EffectValidator (Func ''p1'') (Some ''m1'')))"
  by (simp add: extractValidationFromChecks_def checkValidation_def recordCheck_def
      parseField_Suc parseField_body_def zmAssert_defs example_defs parseString_def validateOf_def)

text \<open>
  C4. For a node of the UUID kind the descriptor's \<^verbatim>\<open>sparse\<close> is read from
  \<^verbatim>\<open>__zm_unique\<close>, not from \<^verbatim>\<open>__zm_sparse\<close>: both flags of the descriptor are the
  node's uniqueness attribute. On \<^verbatim>\<open>zUUID().sparse()\<close> the descriptor is not sparse.
  (The ObjectId branch, \<open>parseField_objectId\<close>, passes \<^verbatim>\<open>__zm_sparse\<close>.)
\<close>

theorem uuid_sparse_reads_unique:
  assumes "zmAssert_uuid f"
  shows "parseField (Suc n) f r d v =
           Some (Inr (Some (parseUUID r (zm_ref f) (zm_unique f) (zm_refPath f) (zm_unique f))))
       \<and> sparseOf (parseField (Suc n) f r d v) = Some (Some (orFalse (zm_unique f)))
       \<and> uniqueOf (parseField (Suc n) f r d v) = Some (Some (orFalse (zm_unique f)))"
  using assms by (simp add: parseField_uuid parseUUID_def sparseOf_def uniqueOf_def)

theorem uuid_sparse_reads_unique_witness:
  "zmAssert_uuid (id_sparse True (zUUID None))
   \<and> zm_sparse (id_sparse True (zUUID None)) = Some True
   \<and> zm_unique (id_sparse True (zUUID None)) = None
   \<and> sparseOf (parseField (Suc 0) (id_sparse True (zUUID None)) True DUndefined None)
       = Some (Some False)"
proof -
  have a: "zmAssert_uuid (id_sparse True (zUUID None))"
    by (simp add: zmAssert_uuid_def id_sparse_def zUUID_def createUUID_def example_defs)
  have b: "zm_sparse (id_sparse True (zUUID None)) = Some True"
    by (simp add: id_sparse_def zUUID_def createUUID_def example_defs)
  have c: "zm_unique (id_sparse True (zUUID None)) = None"
    by (simp add: id_sparse_def zUUID_def createUUID_def example_defs)
  from uuid_sparse_reads_unique [OF a, of 0 True DUndefined None]
  have "sparseOf (parseField (Suc 0) (id_sparse True (zUUID None)) True DUndefined None)
       = Some (Some (orFalse (zm_unique (id_sparse True (zUUID None)))))"
    by blast
  with a b c show ?thesis by (simp add: orFalse_def)
qed

text \<open>
  C5 (as amended). A Nullable wrapper has its inner node translated with
  \<^verbatim>\<open>required = false\<close> and with the inherited provider, or a provider of
  \<^verbatim>\<open>null\<close> when none is inherited. When the inner node is of the string, number, date,
  boolean, enum or any kind, that is what the descriptor holds.
\<close>

theorem nullable_wrapper_context:
  assumes "zmAssert_nullable f"
  shows "parseField (Suc n) f r d v =
           parseField n (innerType (zdef f)) False
             (if d \<noteq> DUndefined then d else DProvider JNull) None
       \<and> (contextKind (innerType (zdef f)) \<longrightarrow>
            requiredOf (parseField (Suc (Suc n)) f r d v) = Some False
            \<and> defaultOf (parseField (Suc (Suc n)) f r DUndefined v) = Some (DProvider JNull)
            \<and> (d \<noteq> DUndefined \<longrightarrow> defaultOf (parseField (Suc (Suc n)) f r d v) = Some d))"
  using assms
  by (simp add: parseField_nullable contextKind_default contextKind_required)

theorem nullable_wrapper_context_witness:
  "zmAssert_nullable (z_nullable z_string)
   \<and> contextKind (innerType (zdef (z_nullable z_string)))
   \<and> requiredOf (parseField (Suc (Suc 0)) (z_nullable z_string) True DUndefined None) = Some False
   \<and> defaultOf (parseField (Suc (Suc 0)) (z_nullable z_string) True DUndefined None)
       = Some (DProvider JNull)
   \<and> defaultOf (parseField (Suc (Suc 0)) (z_nullable z_string) True (DProvider (JStr ''x'')) None)
       = Some (DProvider (JStr ''x''))"
proof -
  have a: "zmAssert_nullable (z_nullable z_string)"
    by (simp add: zmAssert_defs example_defs)
  have b: "contextKind (innerType (zdef (z_nullable z_string)))"
    by (simp add: contextKind_def zmAssert_defs example_defs)
  from nullable_wrapper_context [OF a, of 0 True DUndefined None] b
  have c: "requiredOf (parseField (Suc (Suc 0)) (z_nullable z_string) True DUndefined None) = Some False
     \<and> defaultOf (parseField (Suc (Suc 0)) (z_nullable z_string) True DUndefined None)
       = Some (DProvider JNull)"
    by simp
  from nullable_wrapper_context [OF a, of 0 True "DProvider (JStr ''x'')" None] b
  have d: "defaultOf (parseField (Suc (Suc 0)) (z_nullable z_string) True (DProvider (JStr ''x'')) None)
       = Some (DProvider (JStr ''x''))"
    by simp
  from a b c d show ?thesis by blast
qed

text \<open>C5 as stated fails when the inner node is an Optional wrapper, which clears the
  provider of \<^verbatim>\<open>null\<close>: \<^verbatim>\<open>z.string().optional().nullable()\<close> gets no default.\<close>

theorem nullable_over_optional_counterexample:
  "zmAssert_nullable (z_nullable (z_optional z_string))
   \<and> defaultOf (parseField (Suc (Suc (Suc 0))) (z_nullable (z_optional z_string))
         True DUndefined None) = Some DUndefined
   \<and> defaultOf (parseField (Suc (Suc (Suc 0))) (z_nullable (z_optional z_string))
         True DUndefined None) \<noteq> Some (DProvider JNull)"
  by (simp add: parseField_Suc parseField_body_def zmAssert_defs example_defs parseString_def)

text \<open>
  C6 (as amended). When a member of the root object is of a kind with no branch, the
  entry point returns no object, at any depth. It throws the error of the first member,
  in declaration order, whose translation fails: when the members before the unknown one
  translate, the unsupported-field-type error, which holds the constructor of that
  member and nothing else of it; the error of an earlier member otherwise. An array whose
  element, and a map whose value type, translates to \<^verbatim>\<open>null\<close> throws its own error,
  and one whose contained type throws lets that error through.
\<close>

theorem unknown_member_aborts:
  assumes "shape obj = pre @ (key, m) # post" and "unknownKind m" and "m \<noteq> Absent"
  shows "zodSchemaRaw k obj \<noteq> Some (Inr out)
       \<and> (parseShape (parseField (Suc n)) (parseObject (Suc n)) pre = Some (Inr done)
            \<longrightarrow> zodSchemaRaw (Suc (Suc n)) obj = Some (Inl (UnsupportedFieldType (ctor m))))
       \<and> (parseShape (parseField n) (parseObject n) pre = Some (Inl e)
            \<longrightarrow> zodSchemaRaw (Suc n) obj = Some (Inl e))
       \<and> ((zmAssert_array a
             \<and> parseField n (element a) True DUndefined (elementValidationOf (element a))
                 = Some (Inr None))
            \<longrightarrow> parseField (Suc n) a r d v = Some (Inl UnsupportedArrayType))
       \<and> ((zmAssert_array a
             \<and> parseField n (element a) True DUndefined (elementValidationOf (element a))
                 = Some (Inl e))
            \<longrightarrow> parseField (Suc n) a r d v = Some (Inl e))
       \<and> ((zmAssert_mapOrRecord a
             \<and> parseField n (valueType a) True DUndefined None = Some (Inr None))
            \<longrightarrow> parseField (Suc n) a r d v = Some (Inl UnsupportedMapValueType))
       \<and> ((zmAssert_mapOrRecord a
             \<and> parseField n (valueType a) True DUndefined None = Some (Inl e))
            \<longrightarrow> parseField (Suc n) a r d v = Some (Inl e))"
proof -
  have no: "zodSchemaRaw k obj \<noteq> Some (Inr out)"
  proof (cases k)
    case 0
    then show ?thesis by (simp add: zodSchemaRaw_def)
  next
    case (Suc j)
    have "parseShape (parseField j) (parseObject j) (pre @ (key, m) # post) \<noteq> Some (Inr out')"
      for out'
      by (rule parseShape_member_no_value) (rule parseMember_unknown_no_value [OF assms(2)])
    then show ?thesis using Suc assms(1)
      by (auto simp add: zodSchemaRaw_def parseObject_Suc parseObject_body_def
          split: option.splits sum.splits)
  qed
  have first: "zodSchemaRaw (Suc (Suc n)) obj = Some (Inl (UnsupportedFieldType (ctor m)))"
    if "parseShape (parseField (Suc n)) (parseObject (Suc n)) pre = Some (Inr done)"
    using that assms
    by (simp add: zodSchemaRaw_def parseObject_Suc parseObject_body_def parseShape_append
        parseMember_unknown)
  have earlier: "zodSchemaRaw (Suc n) obj = Some (Inl e)"
    if "parseShape (parseField n) (parseObject n) pre = Some (Inl e)"
    using that assms(1)
    by (simp add: zodSchemaRaw_def parseObject_Suc parseObject_body_def parseShape_append)
  have arr: "parseField (Suc n) a r d v = Some (Inl UnsupportedArrayType)"
    if "zmAssert_array a"
      and "parseField n (element a) True DUndefined (elementValidationOf (element a))
             = Some (Inr None)"
    using that by (simp add: parseField_array_element parseArray_def)
  have arre: "parseField (Suc n) a r d v = Some (Inl e)"
    if "zmAssert_array a"
      and "parseField n (element a) True DUndefined (elementValidationOf (element a))
             = Some (Inl e)"
    using that by (simp add: parseField_array_element parseArray_def)
  have mp: "parseField (Suc n) a r d v = Some (Inl UnsupportedMapValueType)"
    if "zmAssert_mapOrRecord a"
      and "parseField n (valueType a) True DUndefined None = Some (Inr None)"
    using that by (simp add: parseField_map parseMap_def)
  have mpe: "parseField (Suc n) a r d v = Some (Inl e)"
    if "zmAssert_mapOrRecord a"
      and "parseField n (valueType a) True DUndefined None = Some (Inl e)"
    using that by (simp add: parseField_map parseMap_def)
  from no first earlier arr arre mp mpe show ?thesis by blast
qed

theorem unknown_member_aborts_witness:
  "shape (z_object [(''a'', z_string), (''b'', z_bigint), (''c'', z_number)])
     = [(''a'', z_string)] @ (''b'', z_bigint) # [(''c'', z_number)]
   \<and> unknownKind z_bigint \<and> z_bigint \<noteq> Absent
   \<and> parseShape (parseField (Suc 0)) (parseObject (Suc 0)) [(''a'', z_string)]
       = Some (Inr [(''a'', Descriptor TString DUndefined True (Some False) (Some False)
                           None None None None None None None None None)])
   \<and> zodSchemaRaw (Suc (Suc 0)) (z_object [(''a'', z_string), (''b'', z_bigint), (''c'', z_number)])
       = Some (Inl (UnsupportedFieldType ''ZodBigInt''))
   \<and> zmAssert_array (z_array (z_optional z_bigint))
   \<and> parseField (Suc (Suc 0)) (element (z_array (z_optional z_bigint))) True DUndefined
         (elementValidationOf (element (z_array (z_optional z_bigint)))) = Some (Inr None)
   \<and> parseField (Suc (Suc (Suc 0))) (z_array (z_optional z_bigint)) True DUndefined None
       = Some (Inl UnsupportedArrayType)
   \<and> zmAssert_array (z_array (z_array z_bigint))
   \<and> parseField (Suc (Suc (Suc 0))) (z_array (z_array z_bigint)) True DUndefined None
       = Some (Inl UnsupportedArrayType)
   \<and> zmAssert_mapOrRecord (z_map z_bigint)
   \<and> parseField (Suc (Suc 0)) (z_map z_bigint) True DUndefined None
       = Some (Inl UnsupportedMapValueType)
   \<and> parseField (Suc (Suc (Suc 0))) (z_map (z_array z_bigint)) True DUndefined None
       = Some (Inl UnsupportedArrayType)
   \<and> parseShape (parseField (Suc (Suc 0))) (parseObject (Suc (Suc 0)))
         [(''a'', z_array z_bigint)] = Some (Inl UnsupportedArrayType)
   \<and> zodSchemaRaw (Suc (Suc (Suc 0))) (z_object [(''a'', z_array z_bigint), (''b'', z_bigint)])
       = Some (Inl UnsupportedArrayType)"
proof -
  let ?obj2 = "z_object [(''a'', z_array z_bigint), (''b'', z_bigint)]"
  have a2: "shape ?obj2 = [(''a'', z_array z_bigint)] @ (''b'', z_bigint) # []"
    by (simp add: example_defs)
  have d2: "parseShape (parseField (Suc (Suc 0))) (parseObject (Suc (Suc 0)))
         [(''a'', z_array z_bigint)] = Some (Inl UnsupportedArrayType)"
    by (simp add: eval_defs)
  have m1: "zmAssert_mapOrRecord (z_map z_bigint)" by (simp add: eval_defs)
  have m2: "parseField (Suc 0) (valueType (z_map z_bigint)) True DUndefined None
              = Some (Inr None)"
    by (simp add: eval_defs)
  have m3: "zmAssert_mapOrRecord (z_map (z_array z_bigint))" by (simp add: eval_defs)
  have m4: "parseField (Suc (Suc 0)) (valueType (z_map (z_array z_bigint))) True DUndefined None
              = Some (Inl UnsupportedArrayType)"
    by (simp add: eval_defs)
  let ?obj = "z_object [(''a'', z_string), (''b'', z_bigint), (''c'', z_number)]"
  let ?arr = "z_array (z_optional z_bigint)"
  let ?arr2 = "z_array (z_array z_bigint)"
  have a: "shape ?obj = [(''a'', z_string)] @ (''b'', z_bigint) # [(''c'', z_number)]"
    by (simp add: example_defs)
  have b: "unknownKind z_bigint" by (simp add: eval_defs)
  have c: "z_bigint \<noteq> Absent" by (simp add: example_defs)
  have d: "parseShape (parseField (Suc 0)) (parseObject (Suc 0)) [(''a'', z_string)]
       = Some (Inr [(''a'', Descriptor TString DUndefined True (Some False) (Some False)
                           None None None None None None None None None)])"
    by (simp add: eval_defs)
  have cl: "ctor z_bigint = ''ZodBigInt''" by (simp add: example_defs)
  have e: "zmAssert_array ?arr" by (simp add: eval_defs)
  have f: "parseField (Suc (Suc 0)) (element ?arr) True DUndefined
             (elementValidationOf (element ?arr)) = Some (Inr None)"
    by (simp add: eval_defs elementValidationOf_def)
  have e2: "zmAssert_array ?arr2" by (simp add: eval_defs)
  have f2: "parseField (Suc (Suc 0)) (element ?arr2) True DUndefined
             (elementValidationOf (element ?arr2)) = Some (Inl UnsupportedArrayType)"
    by (simp add: eval_defs elementValidationOf_def)
  note t = unknown_member_aborts [OF a b c, of _ _ 0]
  from t d cl have g: "zodSchemaRaw (Suc (Suc 0)) ?obj
       = Some (Inl (UnsupportedFieldType ''ZodBigInt''))"
    by simp
  from unknown_member_aborts [OF a b c, of _ _ "Suc (Suc 0)" _ _ ?arr True DUndefined None] e f
  have h: "parseField (Suc (Suc (Suc 0))) ?arr True DUndefined None
       = Some (Inl UnsupportedArrayType)"
    by blast
  from unknown_member_aborts [OF a b c, of _ _ "Suc (Suc 0)" _ UnsupportedArrayType ?arr2
      True DUndefined None] e2 f2
  have h2: "parseField (Suc (Suc (Suc 0))) ?arr2 True DUndefined None
       = Some (Inl UnsupportedArrayType)"
    by blast
  have b2: "unknownKind z_bigint" by (simp add: eval_defs)
  have c2: "z_bigint \<noteq> Absent" by (simp add: example_defs)
  from unknown_member_aborts [OF a2 b2 c2, of _ _ "Suc (Suc 0)" _ UnsupportedArrayType] d2
  have g2: "zodSchemaRaw (Suc (Suc (Suc 0))) ?obj2 = Some (Inl UnsupportedArrayType)"
    by blast
  from unknown_member_aborts [OF a2 b2 c2, of _ _ "Suc 0" _ _ "z_map z_bigint"
      True DUndefined None] m1 m2
  have h3: "parseField (Suc (Suc 0)) (z_map z_bigint) True DUndefined None
       = Some (Inl UnsupportedMapValueType)"
    by blast
  from unknown_member_aborts [OF a2 b2 c2, of _ _ "Suc (Suc 0)" _ UnsupportedArrayType
      "z_map (z_array z_bigint)" True DUndefined None] m3 m4
  have h4: "parseField (Suc (Suc (Suc 0))) (z_map (z_array z_bigint)) True DUndefined None
       = Some (Inl UnsupportedArrayType)"
    by blast
  from a b c d e f g h e2 h2 m1 h3 h4 d2 g2 show ?thesis by blast
qed

text \<open>C6 as stated fails when a member before the unknown one fails: the error is the
  earlier member's, here the array's, and names no node. And the unsupported-field-type
  error does not tell two members of one class apart.\<close>

theorem unknown_member_after_array_counterexample:
  "unknownKind z_bigint
   \<and> zodSchemaRaw (Suc (Suc (Suc 0))) (z_object [(''a'', z_array z_bigint), (''b'', z_bigint)])
       = Some (Inl UnsupportedArrayType)
   \<and> zodSchemaRaw (Suc (Suc (Suc 0))) (z_object [(''a'', z_array z_bigint), (''b'', z_bigint)])
       \<noteq> Some (Inl (UnsupportedFieldType (ctor z_bigint)))
   \<and> set_checks (Some [Check None None]) z_bigint \<noteq> z_bigint
   \<and> zodSchemaRaw (Suc (Suc 0)) (z_object [(''a'', set_checks (Some [Check None None]) z_bigint)])
       = zodSchemaRaw (Suc (Suc 0)) (z_object [(''a'', z_bigint)])
   \<and> zodSchemaRaw (Suc (Suc 0)) (z_object [(''a'', z_bigint)])
       = Some (Inl (UnsupportedFieldType ''ZodBigInt''))"
  by (simp add: eval_defs)

text \<open>
  C7. A union is translated as its first option is, called with no context, one call
  deeper: the wrapper's own \<^verbatim>\<open>required\<close>, \<^verbatim>\<open>def\<close> and \<^verbatim>\<open>refinement\<close> and the
  options after the first take no part. Two unions with the same first option have the
  same translation at every depth and in every context, so the later options are never
  consulted; and a result is a result of the union exactly when it is a result of the
  first option.
\<close>

theorem union_translates_first_option:
  assumes "zmAssert_union u" and "options (zdef u) = o1 # os"
    and "zmAssert_union u'" and "options (zdef u') = o1 # os'"
  shows "parseField (Suc n) u r d v = parseField n o1 True DUndefined None
       \<and> parseField m u r d v = parseField m u' r' d' v'
       \<and> ((\<exists>k. parseField k u r d v = Some res)
            = (\<exists>k. parseField k o1 True DUndefined None = Some res))"
proof -
  have step: "parseField (Suc k) u r d v = parseField k o1 True DUndefined None" for k
    using assms(1,2) by (simp add: parseField_union)
  have step': "parseField (Suc k) u' r' d' v' = parseField k o1 True DUndefined None" for k
    using assms(3,4) by (simp add: parseField_union)
  have same: "parseField m u r d v = parseField m u' r' d' v'"
    by (cases m) (simp_all add: step step')
  have "(\<exists>k. parseField k u r d v = Some res)
          = (\<exists>k. parseField k o1 True DUndefined None = Some res)"
  proof
    assume "\<exists>k. parseField k u r d v = Some res"
    then obtain k where k: "parseField k u r d v = Some res" by blast
    then obtain j where "k = Suc j" by (cases k) simp_all
    with k step show "\<exists>k. parseField k o1 True DUndefined None = Some res" by auto
  next
    assume "\<exists>k. parseField k o1 True DUndefined None = Some res"
    then obtain k where "parseField k o1 True DUndefined None = Some res" by blast
    with step have "parseField (Suc k) u r d v = Some res" by simp
    then show "\<exists>k. parseField k u r d v = Some res" by blast
  qed
  with step same show ?thesis by blast
qed

theorem union_translates_first_option_witness:
  "zmAssert_union (z_union [z_string, z_number])
   \<and> options (zdef (z_union [z_string, z_number])) = z_string # [z_number]
   \<and> zmAssert_union (z_union [z_string, z_bigint])
   \<and> parseField (Suc (Suc 0)) (z_union [z_string, z_number]) False (DProvider (JNum 1)) None
       = parseField (Suc 0) z_string True DUndefined None
   \<and> parseField (Suc (Suc 0)) (z_union [z_string, z_number]) False (DProvider (JNum 1)) None
       = parseField (Suc (Suc 0)) (z_union [z_string, z_bigint]) True DUndefined None
   \<and> parseField (Suc 0) z_string True DUndefined None
       = Some (Inr (Some (Descriptor TString DUndefined True (Some False) (Some False)
           None None None None None None None None None)))"
proof -
  have a: "zmAssert_union (z_union [z_string, z_number])"
    by (simp add: zmAssert_union_def hasStaticName_def z_union_def z_node_def)
  have b: "options (zdef (z_union [z_string, z_number])) = z_string # [z_number]"
    by (simp add: z_union_def z_node_def)
  have c: "zmAssert_union (z_union [z_string, z_bigint])"
    by (simp add: zmAssert_union_def hasStaticName_def z_union_def z_node_def)
  have d: "options (zdef (z_union [z_string, z_bigint])) = z_string # [z_bigint]"
    by (simp add: z_union_def z_node_def)
  have s: "zmAssert_string z_string"
    by (simp add: zmAssert_string_def hasStaticName_def z_string_def z_node_def)
  have e: "parseField (Suc 0) z_string True DUndefined None
       = Some (Inr (Some (Descriptor TString DUndefined True (Some False) (Some False)
           None None None None None None None None None)))"
    by (subst parseField_string [OF s])
      (simp add: parseString_def orFalse_def extractValidationFromChecks_def z_string_def
        z_node_def)
  note t = union_translates_first_option [OF a b c d, of "Suc 0" False "DProvider (JNum 1)" None
      "Suc (Suc 0)" True DUndefined None]
  from t have f1: "parseField (Suc (Suc 0)) (z_union [z_string, z_number]) False
      (DProvider (JNum 1)) None = parseField (Suc 0) z_string True DUndefined None"
    by (rule conjunct1)
  from t have f2: "parseField (Suc (Suc 0)) (z_union [z_string, z_number]) False
      (DProvider (JNum 1)) None
       = parseField (Suc (Suc 0)) (z_union [z_string, z_bigint]) True DUndefined None"
    by (rule conjunct1 [OF conjunct2])
  show ?thesis by (intro conjI) (rule a b c f1 f2 e)+
qed

text \<open>
  C8. Whatever the first call of \<^verbatim>\<open>extendZod\<close> found and did, it leaves
  \<^verbatim>\<open>zod_extended\<close> set; a later call, on any library and in particular on the one the
  first call left, throws nothing and returns the library as it is: no prototype
  property is assigned again.
\<close>

theorem extendZod_again_is_noop:
  "fst (snd (extendZod zod_extended z_0)) = True
   \<and> extendZod (fst (snd (extendZod zod_extended z_0))) z = (None, True, z)
   \<and> extendZod (fst (snd (extendZod zod_extended z_0))) (snd (snd (extendZod zod_extended z_0)))
       = (None, True, snd (snd (extendZod zod_extended z_0)))"
proof -
  have flag: "fst (snd (extendZod zod_extended z_0)) = True"
    by (simp add: extendZod_def split: prod.split option.split)
  have "extendZod True z' = (None, True, z')" for z'
    by (simp add: extendZod_def)
  with flag show ?thesis by simp
qed

theorem extendZod_again_is_noop_witness:
  "fst (extendZod False zod_v4) = None
   \<and> snd (snd (extendZod False zod_v4)) ''ZodString''
       = Some \<lparr>unique_method = Some ZmUnique, sparse_method = Some ZmSparse,
               static_name = Some ''String''\<rparr>
   \<and> snd (snd (extendZod False zod_v4)) ''ZodTransform''
       = Some \<lparr>unique_method = None, sparse_method = None, static_name = Some ''Effects''\<rparr>
   \<and> extendZod (fst (snd (extendZod False zod_v4))) (snd (snd (extendZod False zod_v4)))
       = (None, True, snd (snd (extendZod False zod_v4)))
   \<and> fst (extendZod False zod_v3) = Some TypeError
   \<and> extendZod (fst (snd (extendZod False zod_v3))) (snd (snd (extendZod False zod_v3)))
       = (None, True, snd (snd (extendZod False zod_v3)))"
proof -
  have a: "fst (extendZod False zod_v4) = None"
    by (simp add: extendZod_def zod_v4_def TypesMap_def UNIQUE_SUPPORT_LIST_def untouched_def)
  have b: "snd (snd (extendZod False zod_v4)) ''ZodString''
       = Some \<lparr>unique_method = Some ZmUnique, sparse_method = Some ZmSparse,
               static_name = Some ''String''\<rparr>"
    by (simp add: extendZod_def zod_v4_def TypesMap_def UNIQUE_SUPPORT_LIST_def untouched_def)
  have c: "snd (snd (extendZod False zod_v4)) ''ZodTransform''
       = Some \<lparr>unique_method = None, sparse_method = None, static_name = Some ''Effects''\<rparr>"
    by (simp add: extendZod_def zod_v4_def TypesMap_def UNIQUE_SUPPORT_LIST_def untouched_def)
  have d: "fst (extendZod False zod_v3) = Some TypeError"
    by (simp add: extendZod_def zod_v3_def zod_v4_def TypesMap_def UNIQUE_SUPPORT_LIST_def
        untouched_def)
  from extendZod_again_is_noop [of False zod_v4 zod_v4]
    extendZod_again_is_noop [of False zod_v3 zod_v3] a b c d
  show ?thesis by blast
qed




text \<open>
  C10 (as amended). In the effect branch, when the type of the definition is one for
  which the branch makes its recursive call, that call is given the node's own
  definition object as \<^verbatim>\<open>def\<close>: the local \<^verbatim>\<open>def\<close> hides the parameter. The result
  does not depend on the provider the branch was called with; and when the original
  field is of the string, number, date, boolean, enum or any kind, the \<^verbatim>\<open>default\<close> of
  the descriptor is that definition object.
\<close>

theorem effect_passes_definition_as_default:
  assumes "zmAssert_effect f" and "effectType f"
  shows "parseField (Suc n) f r d v =
           flagged (attrOrFalse (originalField f) zm_unique) (attrOrFalse (originalField f) zm_sparse)
             (parseField n (effectTarget f) r (DObject (zdef f)) v)
       \<and> parseField (Suc n) f r d v = parseField (Suc n) f r d' v
       \<and> (contextKind (originalField f) \<longrightarrow>
            defaultOf (parseField (Suc (Suc n)) f r d v) = Some (DObject (zdef f)))"
proof -
  have eq: "parseField (Suc k) f r d0 v =
           flagged (attrOrFalse (originalField f) zm_unique) (attrOrFalse (originalField f) zm_sparse)
             (parseField k (effectTarget f) r (DObject (zdef f)) v)" for k d0
    using assms by (simp add: parseField_effect)
  have "parseField (Suc n) f r d v = parseField (Suc n) f r d' v"
    by (simp only: eq)
  moreover have "defaultOf (parseField (Suc (Suc n)) f r d v) = Some (DObject (zdef f))"
    if "contextKind (originalField f)"
  proof -
    from that have "effectTarget f = originalField f"
      by (auto simp add: effectTarget_def dest: contextKind_not_Absent)
    with that show ?thesis by (simp add: eq contextKind_default)
  qed
  ultimately show ?thesis using eq by blast
qed

theorem effect_passes_definition_as_default_witness:
  "zmAssert_effect (z_transform z_string) \<and> effectType (z_transform z_string)
   \<and> contextKind (originalField (z_transform z_string))
   \<and> defaultOf (parseField (Suc (Suc (Suc 0))) (z_default (z_transform z_string) (JNum 3))
         True DUndefined None) = Some (DObject (zdef (z_transform z_string)))
   \<and> defaultOf (parseField (Suc (Suc 0)) (z_transform z_string) True (DProvider (JNum 3)) None)
       = Some (DObject (zdef (z_transform z_string)))"
proof -
  have a: "zmAssert_effect (z_transform z_string)"
    by (simp add: zmAssert_defs example_defs z_transform_def)
  have b: "effectType (z_transform z_string)"
    by (simp add: effectType_def z_transform_def example_defs)
  have c: "contextKind (originalField (z_transform z_string))"
    by (simp add: contextKind_def originalField_def zmAssert_defs z_transform_def example_defs)
  from effect_passes_definition_as_default [OF a b, of 0 True "DProvider (JNum 3)" None] c
  have d: "defaultOf (parseField (Suc (Suc 0)) (z_transform z_string) True (DProvider (JNum 3)) None)
       = Some (DObject (zdef (z_transform z_string)))"
    by blast
  have e: "parseField (Suc (Suc (Suc 0))) (z_default (z_transform z_string) (JNum 3))
         True DUndefined None
       = parseField (Suc (Suc 0)) (z_transform z_string) True (DProvider (JNum 3)) None"
    by (subst parseField_default) (simp_all add: zmAssert_defs example_defs)
  from a b c d e show ?thesis by simp
qed

text \<open>C10 as stated fails when the original field is a wrapper that replaces the
  provider it is called with: under an Optional the descriptor has no default, under a
  Default it has the wrapper's.\<close>

theorem effect_over_optional_counterexample:
  "zmAssert_effect (z_transform (z_optional z_string))
   \<and> effectType (z_transform (z_optional z_string))
   \<and> defaultOf (parseField (Suc (Suc (Suc 0))) (z_transform (z_optional z_string))
         True DUndefined None) = Some DUndefined
   \<and> defaultOf (parseField (Suc (Suc (Suc 0))) (z_transform (z_optional z_string))
         True DUndefined None) \<noteq> Some (DObject (zdef (z_transform (z_optional z_string))))
   \<and> defaultOf (parseField (Suc (Suc (Suc 0))) (z_transform (z_default z_string (JNum 3)))
         True DUndefined None) = Some (DProvider (JNum 3))"
  by (simp add: eval_defs z_transform_def effectType_def refinedPrimitiveType_def
      originalField_def flagged_def)

end
